theory Spec2Isabelle
  imports Main
begin

section \<open>Data model of the tarexport loader (image/tarexport/load.go)\<close>

text \<open>
  The loader reads an extracted image archive and drives three collaborators: the layer
  store \<open>l.ls\<close>, the image store \<open>l.is\<close> and the reference store \<open>l.rs\<close>.
  None of the collaborators is part of the file; they are parameters of the model.
  Go strings, paths, digests and byte slices are all \<open>string\<close>.
\<close>

type_synonym path = string
type_synonym bytes = string
type_synonym DiffID = string
type_synonym ChainID = string
type_synonym ID = string
type_synonym History = string

text \<open>
  Go's \<open>error\<close> values. \<open>OSNotExist\<close> stands for the errors on which
  \<open>os.IsNotExist\<close> holds, \<open>ErrInvalid\<close> for \<open>os.ErrInvalid\<close>, \<open>Other\<close>
  for any further error of the operating system or of a collaborator. The remaining
  constructors are the errors load.go builds itself with \<open>fmt.Errorf\<close>;
  \<open>Panic\<close> is a run-time panic (index out of range).
\<close>

datatype error =
    OSNotExist path
  | ErrInvalid
  | Other string
  | LayersLengthMismatch nat nat
  | InvalidDiffID nat DiffID DiffID
  | InvalidTag string
  | NameAndRefs
  | NoNameMapping
  | NoRefName
  | NoNaming string
  | InvalidTargetID string
  | Panic string

fun IsNotExist :: "error \<Rightarrow> bool" where
  "IsNotExist (OSNotExist p) = True"
| "IsNotExist e = False"

text \<open>
  \<open>(*os.File).Close\<close> called on the nil handle that \<open>os.Open\<close> returns beside
  an error: the method answers \<open>os.ErrInvalid\<close> for a nil receiver.
\<close>

definition nil_File_Close :: "error option" where
  "nil_File_Close = Some ErrInvalid"

record manifestItem =
  Config :: string
  RepoTags :: "string list"
  Layers :: "string list"

record RootFS =
  Type :: string
  DiffIDs :: "DiffID list"

definition Append :: "RootFS \<Rightarrow> DiffID \<Rightarrow> RootFS" where
  "Append r d = r\<lparr>DiffIDs := DiffIDs r @ [d]\<rparr>"

record Image =
  img_RootFS :: RootFS
  img_History :: "History list"

text \<open>A layer handle (\<open>layer.Layer\<close>); the loader only reads its \<open>DiffID()\<close>.\<close>

record Layer =
  L_ChainID :: ChainID
  L_DiffID :: DiffID

text \<open>
  The reader handed to \<open>ls.Register\<close>: the inflated layer data, wrapped by
  \<open>progress.NewProgressReader\<close> with the file size and the truncated id.
\<close>

record stream =
  s_data :: bytes
  s_progress :: "(nat \<times> string) option"

record Named =
  ref_Name :: string
  ref_Tag :: "string option"

definition ref_String :: "Named \<Rightarrow> string" where
  "ref_String r = (case ref_Tag r of None \<Rightarrow> ref_Name r | Some t \<Rightarrow> ref_Name r @ '':'' @ t)"

record Descriptor =
  MediaType :: string
  Digest :: string
  Annotations :: "(string \<times> string) list"

record Manifest =
  oci_Config :: Descriptor
  oci_Layers :: "Descriptor list"

record ImageIndex =
  Manifests :: "Descriptor list"

definition MediaTypeImageManifest :: string where
  "MediaTypeImageManifest = ''application/vnd.oci.image.manifest.v1+json''"

subsection \<open>Collaborators\<close>

text \<open>
  The extracted tree under the temporary directory. It does not change while an archive
  is loaded, so its operations are functions of the path alone. \<open>os_Open\<close> stands for
  opening a file and reading it (\<open>os.Open\<close> followed by a decoder, or
  \<open>ioutil.ReadFile\<close>); \<open>ReadDir\<close> lists names with their \<open>IsDir\<close> flag.
\<close>

record filesys =
  Join :: "string list \<Rightarrow> path"
  FollowSymlinkInScope :: "path \<Rightarrow> path \<Rightarrow> error + path"
  os_Open :: "path \<Rightarrow> error + bytes"
  Stat :: "path \<Rightarrow> error + nat"
  ReadDir :: "path \<Rightarrow> error + (string \<times> bool) list"

text \<open>Pure library functions: JSON decoding, image configuration, decompression.\<close>

record codec =
  decodeManifest :: "bytes \<Rightarrow> error + manifestItem list"
  decodeIndex :: "bytes \<Rightarrow> error + ImageIndex"
  decodeOCIManifest :: "bytes \<Rightarrow> error + Manifest"
  decodeRepositories :: "bytes \<Rightarrow> error + (string \<times> (string \<times> string) list) list"
  unmarshalParent :: "bytes \<Rightarrow> error + string"
  NewFromJSON :: "bytes \<Rightarrow> error + Image"
  HistoryFromConfig :: "bytes \<Rightarrow> error + History"
  MakeConfigFromV1Config :: "bytes \<Rightarrow> RootFS \<Rightarrow> History list \<Rightarrow> error + bytes"
  ChainID :: "RootFS \<Rightarrow> ChainID"
  DecompressStream :: "bytes \<Rightarrow> error + bytes"
  TruncateID :: "string \<Rightarrow> string"

text \<open>
  The reference and digest packages, and \<open>getRefs\<close>, a function of the package that
  is declared outside load.go.
\<close>

record naming =
  ParseNamed :: "string \<Rightarrow> error + Named"
  WithName :: "string \<Rightarrow> error + Named"
  WithTag :: "Named \<Rightarrow> string \<Rightarrow> error + Named"
  getRefs :: "(string \<times> string) list \<Rightarrow> error + (string \<times> Named) list"
  Algorithm :: "string \<Rightarrow> string"
  Hex :: "string \<Rightarrow> string"

text \<open>The file-name constants of the package, declared outside load.go.\<close>

record fileNames =
  manifestFileName :: string
  legacyRepositoriesFileName :: string
  legacyConfigFileName :: string
  legacyLayerFileName :: string

text \<open>
  The three stores, acting on an external state of type \<open>'x\<close>. A Go result
  \<open>(v, err)\<close> is \<open>error + 'v\<close>, a lone \<open>error\<close> is \<open>error option\<close>.
\<close>

record 'x stores =
  lsGet :: "ChainID \<Rightarrow> 'x \<Rightarrow> (error + Layer) \<times> 'x"
  lsRegister :: "stream \<Rightarrow> ChainID \<Rightarrow> 'x \<Rightarrow> (error + Layer) \<times> 'x"
  lsRelease :: "Layer \<Rightarrow> 'x \<Rightarrow> error option \<times> 'x"
  isCreate :: "bytes \<Rightarrow> 'x \<Rightarrow> (error + ID) \<times> 'x"
  isGet :: "ID \<Rightarrow> 'x \<Rightarrow> (error + Image) \<times> 'x"
  isSetParent :: "ID \<Rightarrow> ID \<Rightarrow> 'x \<Rightarrow> error option \<times> 'x"
  rsGet :: "Named \<Rightarrow> 'x \<Rightarrow> (error + ID) \<times> 'x"
  rsAddTag :: "Named \<Rightarrow> ID \<Rightarrow> bool \<Rightarrow> 'x \<Rightarrow> error option \<times> 'x"

record 'x tarexporter =
  cd :: codec
  rf :: naming
  nm :: fileNames
  st :: "'x stores"

subsection \<open>The observable trace\<close>

text \<open>
  Every call of a collaborator that has an effect, every file the loader opens, every
  line written to \<open>outStream\<close> and every write to the legacy load map is recorded,
  in order, with its arguments (and, for the calls that hand out a layer handle or an
  image id, its result).
\<close>

datatype event =
    EvOpen path
  | EvLsGet ChainID "Layer option"
  | EvLsRegister stream ChainID "Layer option"
  | EvLsRelease Layer
  | EvIsCreate bytes "ID option"
  | EvIsGet ID
  | EvIsSetParent ID ID
  | EvRsGet Named
  | EvRsAddTag Named ID
  | EvWrite string
  | EvMapStore string ID
  | EvRemoveAll path

record 'x world =
  ext :: 'x
  trace :: "event list"

definition emit :: "event \<Rightarrow> 'x world \<Rightarrow> 'x world" where
  "emit e w = w\<lparr>trace := trace w @ [e]\<rparr>"

definition result :: "error + 'a \<Rightarrow> 'a option" where
  "result r = (case r of Inl e \<Rightarrow> None | Inr v \<Rightarrow> Some v)"

definition open_file :: "filesys \<Rightarrow> path \<Rightarrow> 'x world \<Rightarrow> (error + bytes) \<times> 'x world" where
  "open_file fs p w = (os_Open fs p, emit (EvOpen p) w)"

definition ls_Get :: "'x tarexporter \<Rightarrow> ChainID \<Rightarrow> 'x world \<Rightarrow> (error + Layer) \<times> 'x world" where
  "ls_Get l c w =
     (case lsGet (st l) c (ext w) of
        (r, x) \<Rightarrow> (r, emit (EvLsGet c (result r)) (w\<lparr>ext := x\<rparr>)))"

definition ls_Register ::
  "'x tarexporter \<Rightarrow> stream \<Rightarrow> ChainID \<Rightarrow> 'x world \<Rightarrow> (error + Layer) \<times> 'x world" where
  "ls_Register l s c w =
     (case lsRegister (st l) s c (ext w) of
        (r, x) \<Rightarrow> (r, emit (EvLsRegister s c (result r)) (w\<lparr>ext := x\<rparr>)))"

definition ls_Release :: "'x tarexporter \<Rightarrow> Layer \<Rightarrow> 'x world \<Rightarrow> error option \<times> 'x world" where
  "ls_Release l h w =
     (case lsRelease (st l) h (ext w) of
        (r, x) \<Rightarrow> (r, emit (EvLsRelease h) (w\<lparr>ext := x\<rparr>)))"

definition is_Create :: "'x tarexporter \<Rightarrow> bytes \<Rightarrow> 'x world \<Rightarrow> (error + ID) \<times> 'x world" where
  "is_Create l c w =
     (case isCreate (st l) c (ext w) of
        (r, x) \<Rightarrow> (r, emit (EvIsCreate c (result r)) (w\<lparr>ext := x\<rparr>)))"

definition is_Get :: "'x tarexporter \<Rightarrow> ID \<Rightarrow> 'x world \<Rightarrow> (error + Image) \<times> 'x world" where
  "is_Get l i w =
     (case isGet (st l) i (ext w) of
        (r, x) \<Rightarrow> (r, emit (EvIsGet i) (w\<lparr>ext := x\<rparr>)))"

definition is_SetParent :: "'x tarexporter \<Rightarrow> ID \<Rightarrow> ID \<Rightarrow> 'x world \<Rightarrow> error option \<times> 'x world" where
  "is_SetParent l i p w =
     (case isSetParent (st l) i p (ext w) of
        (r, x) \<Rightarrow> (r, emit (EvIsSetParent i p) (w\<lparr>ext := x\<rparr>)))"

definition rs_Get :: "'x tarexporter \<Rightarrow> Named \<Rightarrow> 'x world \<Rightarrow> (error + ID) \<times> 'x world" where
  "rs_Get l n w =
     (case rsGet (st l) n (ext w) of
        (r, x) \<Rightarrow> (r, emit (EvRsGet n) (w\<lparr>ext := x\<rparr>)))"

definition rs_AddTag ::
  "'x tarexporter \<Rightarrow> Named \<Rightarrow> ID \<Rightarrow> bool \<Rightarrow> 'x world \<Rightarrow> error option \<times> 'x world" where
  "rs_AddTag l n i force w =
     (case rsAddTag (st l) n i force (ext w) of
        (r, x) \<Rightarrow> (r, emit (EvRsAddTag n i) (w\<lparr>ext := x\<rparr>)))"

section \<open>The loader\<close>

subsection \<open>safePath (lines 407-409)\<close>

definition safePath :: "filesys \<Rightarrow> path \<Rightarrow> path \<Rightarrow> error + path" where
  "safePath fs base p = FollowSymlinkInScope fs (Join fs [base, p]) base"

subsection \<open>loadLayer (lines 145-170)\<close>

text \<open>
  \<open>progressOutput\<close> is a flag: \<open>Load\<close> always supplies one. With it the file is
  statted and the reader is wrapped before it is registered.
\<close>

definition loadLayer ::
  "'x tarexporter \<Rightarrow> filesys \<Rightarrow> path \<Rightarrow> RootFS \<Rightarrow> string \<Rightarrow> bool \<Rightarrow> 'x world
     \<Rightarrow> (error + Layer) \<times> 'x world" where
  "loadLayer l fs filename rootFS ident progressOutput w =
     (case open_file fs filename w of
        (Inl e, w1) \<Rightarrow> (Inl e, w1)
      | (Inr rawTar, w1) \<Rightarrow>
          (case DecompressStream (cd l) rawTar of
             Inl e \<Rightarrow> (Inl e, w1)
           | Inr inflatedLayerData \<Rightarrow>
               if progressOutput then
                 (case Stat fs filename of
                    Inl e \<Rightarrow> (Inl e, w1)
                  | Inr fileSize \<Rightarrow>
                      ls_Register l
                        \<lparr>s_data = inflatedLayerData,
                         s_progress = Some (fileSize, TruncateID (cd l) ident)\<rparr>
                        (ChainID (cd l) rootFS) w1)
               else
                 ls_Register l \<lparr>s_data = inflatedLayerData, s_progress = None\<rparr>
                   (ChainID (cd l) rootFS) w1))"

subsection \<open>setLoadedTag (lines 172-181)\<close>

definition setLoadedTag ::
  "'x tarexporter \<Rightarrow> Named \<Rightarrow> ID \<Rightarrow> 'x world \<Rightarrow> error option \<times> 'x world" where
  "setLoadedTag l ref imgID w =
     (case rs_Get l ref w of
        (r, w1) \<Rightarrow>
          (let w2 = (case r of
                       Inr prevID \<Rightarrow>
                         if prevID \<noteq> imgID then
                           emit (EvWrite (''The image '' @ ref_String ref @
                             '' already exists, renaming the old one with ID '' @ prevID @
                             '' to empty string'')) w1
                         else w1
                     | Inl e \<Rightarrow> w1)
           in rs_AddTag l ref imgID True w2))"

definition loaded_msg :: "Named \<Rightarrow> ID \<Rightarrow> string" where
  "loaded_msg ref imgID = ref_String ref @ ''('' @ imgID @ '') has been loaded.''"

subsection \<open>loadHelper (lines 78-143)\<close>

text \<open>
  Lines 105-113: look the layer up under the chain id of the root file system extended
  by \<open>diffID\<close>; on any error of the lookup, load it from the file.
\<close>

definition getOrLoad ::
  "'x tarexporter \<Rightarrow> filesys \<Rightarrow> path \<Rightarrow> RootFS \<Rightarrow> DiffID \<Rightarrow> bool \<Rightarrow> 'x world
     \<Rightarrow> (error + Layer) \<times> 'x world" where
  "getOrLoad l fs layerPath rootFS diffID progressOutput w =
     (case ls_Get l (ChainID (cd l) (Append rootFS diffID)) w of
        (Inr newLayer, w1) \<Rightarrow> (Inr newLayer, w1)
      | (Inl e, w1) \<Rightarrow> loadLayer l fs layerPath rootFS diffID progressOutput w1)"

text \<open>
  The loop of lines 100-119 over \<open>img.RootFS.DiffIDs\<close>, from index \<open>i\<close>. The list
  \<open>ds\<close> is the stack of deferred \<open>layer.ReleaseAndLog\<close> calls of the enclosing
  \<open>loadHelper\<close>, the latest first. \<open>m.Layers[i]\<close> panics out of range.
\<close>

fun loadLayers ::
  "'x tarexporter \<Rightarrow> filesys \<Rightarrow> path \<Rightarrow> string list \<Rightarrow> bool \<Rightarrow> nat \<Rightarrow> DiffID list
     \<Rightarrow> RootFS \<Rightarrow> Layer list \<Rightarrow> 'x world \<Rightarrow> error option \<times> RootFS \<times> Layer list \<times> 'x world" where
  "loadLayers l fs tmpDir layers po i [] rootFS ds w = (None, rootFS, ds, w)"
| "loadLayers l fs tmpDir layers po i (diffID # rest) rootFS ds w =
     (if length layers \<le> i then (Some (Panic ''index out of range''), rootFS, ds, w)
      else
        case safePath fs tmpDir (layers ! i) of
          Inl e \<Rightarrow> (Some e, rootFS, ds, w)
        | Inr layerPath \<Rightarrow>
            (case getOrLoad l fs layerPath rootFS diffID po w of
               (Inl e, w1) \<Rightarrow> (Some e, rootFS, ds, w1)
             | (Inr newLayer, w1) \<Rightarrow>
                 if diffID \<noteq> L_DiffID newLayer then
                   (Some (InvalidDiffID i diffID (L_DiffID newLayer)), rootFS, newLayer # ds, w1)
                 else
                   loadLayers l fs tmpDir layers po (Suc i) rest (Append rootFS diffID)
                     (newLayer # ds) w1))"

text \<open>The loop of lines 126-139 over \<open>m.RepoTags\<close>. The result of \<open>setLoadedTag\<close> is dropped.\<close>

fun loadTags ::
  "'x tarexporter \<Rightarrow> ID \<Rightarrow> string list \<Rightarrow> 'x world \<Rightarrow> error option \<times> 'x world" where
  "loadTags l imgID [] w = (None, w)"
| "loadTags l imgID (repoTag # rest) w =
     (case ParseNamed (rf l) repoTag of
        Inl e \<Rightarrow> (Some e, w)
      | Inr named \<Rightarrow>
          if ref_Tag named = None then (Some (InvalidTag repoTag), w)
          else
            (case setLoadedTag l named imgID w of
               (r, w1) \<Rightarrow> loadTags l imgID rest (emit (EvWrite (loaded_msg named imgID)) w1)))"

text \<open>One round of the loop of lines 79-140, for the manifest item \<open>m\<close>.\<close>

definition loadItem ::
  "'x tarexporter \<Rightarrow> filesys \<Rightarrow> path \<Rightarrow> bool \<Rightarrow> manifestItem \<Rightarrow> Layer list \<Rightarrow> 'x world
     \<Rightarrow> error option \<times> Layer list \<times> 'x world" where
  "loadItem l fs tmpDir po m ds w =
     (case safePath fs tmpDir (Config m) of
        Inl e \<Rightarrow> (Some e, ds, w)
      | Inr configPath \<Rightarrow>
          (case open_file fs configPath w of
             (Inl e, w1) \<Rightarrow> (Some e, ds, w1)
           | (Inr config, w1) \<Rightarrow>
               (case NewFromJSON (cd l) config of
                  Inl e \<Rightarrow> (Some e, ds, w1)
                | Inr img \<Rightarrow>
                    if length (Layers m) \<noteq> length (DiffIDs (img_RootFS img)) then
                      (Some (LayersLengthMismatch (length (Layers m))
                         (length (DiffIDs (img_RootFS img)))), ds, w1)
                    else
                      (case loadLayers l fs tmpDir (Layers m) po 0 (DiffIDs (img_RootFS img))
                              ((img_RootFS img)\<lparr>DiffIDs := []\<rparr>) ds w1 of
                         (Some e, rootFS, ds2, w2) \<Rightarrow> (Some e, ds2, w2)
                       | (None, rootFS, ds2, w2) \<Rightarrow>
                           (case is_Create l config w2 of
                              (Inl e, w3) \<Rightarrow> (Some e, ds2, w3)
                            | (Inr imgID, w3) \<Rightarrow>
                                (case loadTags l imgID (RepoTags m) w3 of
                                   (r, w4) \<Rightarrow> (r, ds2, w4)))))))"

fun loadManifests ::
  "'x tarexporter \<Rightarrow> filesys \<Rightarrow> path \<Rightarrow> bool \<Rightarrow> manifestItem list \<Rightarrow> Layer list \<Rightarrow> 'x world
     \<Rightarrow> error option \<times> Layer list \<times> 'x world" where
  "loadManifests l fs tmpDir po [] ds w = (None, ds, w)"
| "loadManifests l fs tmpDir po (m # ms) ds w =
     (case loadItem l fs tmpDir po m ds w of
        (Some e, ds1, w1) \<Rightarrow> (Some e, ds1, w1)
      | (None, ds1, w1) \<Rightarrow> loadManifests l fs tmpDir po ms ds1 w1)"

text \<open>
  The deferred \<open>layer.ReleaseAndLog\<close> calls run when \<open>loadHelper\<close> returns, the
  latest first; an error of \<open>ls.Release\<close> is logged and dropped.
\<close>

fun runDeferred :: "'x tarexporter \<Rightarrow> Layer list \<Rightarrow> 'x world \<Rightarrow> 'x world" where
  "runDeferred l [] w = w"
| "runDeferred l (h # ds) w = runDeferred l ds (snd (ls_Release l h w))"

definition loadHelper ::
  "'x tarexporter \<Rightarrow> filesys \<Rightarrow> path \<Rightarrow> manifestItem list \<Rightarrow> bool \<Rightarrow> 'x world
     \<Rightarrow> error option \<times> 'x world" where
  "loadHelper l fs tmpDir manifests po w =
     (case loadManifests l fs tmpDir po manifests [] w of
        (r, ds, w1) \<Rightarrow> (r, runDeferred l ds w1))"

subsection \<open>ociLoad (lines 183-259)\<close>

text \<open>Lines 217-221: the blob path of every layer descriptor.\<close>

definition blobPath :: "'x tarexporter \<Rightarrow> filesys \<Rightarrow> string \<Rightarrow> path" where
  "blobPath l fs d = Join fs [''blobs'', Algorithm (rf l) d, Hex (rf l) d]"

text \<open>Lines 222-247: the repository tag of one manifest descriptor.\<close>

definition ociTag ::
  "'x tarexporter \<Rightarrow> string \<Rightarrow> (string \<times> string) list \<Rightarrow> Descriptor \<Rightarrow> error + string" where
  "ociTag l name refs md =
     (case map_of (Annotations md) ''org.opencontainers.ref.name'' of
        None \<Rightarrow> Inl NoRefName
      | Some refName \<Rightarrow>
          if name \<noteq> [] then
            (case ParseNamed (rf l) name of
               Inl e \<Rightarrow> Inl e
             | Inr named \<Rightarrow>
                 (case WithTag (rf l) named refName of
                    Inl e \<Rightarrow> Inl e
                  | Inr withTag \<Rightarrow> Inr (ref_String withTag)))
          else
            (case getRefs (rf l) refs of
               Inl e \<Rightarrow> Inl e
             | Inr rs \<Rightarrow>
                 (case map_of rs refName of
                    None \<Rightarrow> Inl (NoNaming refName)
                  | Some r \<Rightarrow> Inr (ref_String r))))"

text \<open>
  The loop of lines 202-256 over \<open>index.Manifests\<close>; \<open>manifests\<close> accumulates the
  items. The manifest blob is opened under \<open>filepath.Join\<close> of the temporary
  directory, not under \<open>safePath\<close>.
\<close>

fun ociManifests ::
  "'x tarexporter \<Rightarrow> filesys \<Rightarrow> path \<Rightarrow> string \<Rightarrow> (string \<times> string) list \<Rightarrow> Descriptor list
     \<Rightarrow> manifestItem list \<Rightarrow> 'x world \<Rightarrow> (error + manifestItem list) \<times> 'x world" where
  "ociManifests l fs tmpDir name refs [] manifests w = (Inr manifests, w)"
| "ociManifests l fs tmpDir name refs (md # mds) manifests w =
     (if MediaType md \<noteq> MediaTypeImageManifest then
        ociManifests l fs tmpDir name refs mds manifests w
      else
        case open_file fs
               (Join fs [tmpDir, ''blobs'', Algorithm (rf l) (Digest md), Hex (rf l) (Digest md)]) w of
          (Inl e, w1) \<Rightarrow> (Inl e, w1)
        | (Inr f, w1) \<Rightarrow>
            (case decodeOCIManifest (cd l) f of
               Inl e \<Rightarrow> (Inl e, w1)
             | Inr man \<Rightarrow>
                 (case ociTag l name refs md of
                    Inl e \<Rightarrow> (Inl e, w1)
                  | Inr tag \<Rightarrow>
                      ociManifests l fs tmpDir name refs mds
                        (manifests @
                          [\<lparr>Config = blobPath l fs (Digest (oci_Config man)),
                            RepoTags = [tag],
                            Layers = map (\<lambda>d. blobPath l fs (Digest d)) (oci_Layers man)\<rparr>])
                        w1)))"

definition ociLoad ::
  "'x tarexporter \<Rightarrow> filesys \<Rightarrow> path \<Rightarrow> string \<Rightarrow> (string \<times> string) list \<Rightarrow> bool \<Rightarrow> 'x world
     \<Rightarrow> error option \<times> 'x world" where
  "ociLoad l fs tmpDir name refs po w =
     (if name \<noteq> [] \<and> refs \<noteq> [] then (Some NameAndRefs, w)
      else if name = [] \<and> refs = [] then (Some NoNameMapping, w)
      else
        case open_file fs (Join fs [tmpDir, ''index.json'']) w of
          (Inl e, w1) \<Rightarrow> (Some e, w1)
        | (Inr indexJSON, w1) \<Rightarrow>
            (case decodeIndex (cd l) indexJSON of
               Inl e \<Rightarrow> (Some e, w1)
             | Inr index \<Rightarrow>
                 (case ociManifests l fs tmpDir name refs (Manifests index) [] w1 of
                    (Inl e, w2) \<Rightarrow> (Some e, w2)
                  | (Inr manifests, w2) \<Rightarrow> loadHelper l fs tmpDir manifests po w2)))"

subsection \<open>legacyLoadImage (lines 319-405)\<close>

text \<open>Lines 323-336: read the image's json and its \<open>Parent\<close> field.\<close>

definition legacyConfig ::
  "'x tarexporter \<Rightarrow> filesys \<Rightarrow> path \<Rightarrow> string \<Rightarrow> 'x world
     \<Rightarrow> (error + bytes \<times> string) \<times> 'x world" where
  "legacyConfig l fs sourceDir oldID w =
     (case safePath fs sourceDir (Join fs [oldID, legacyConfigFileName (nm l)]) of
        Inl e \<Rightarrow> (Inl e, w)
      | Inr configPath \<Rightarrow>
          (case open_file fs configPath w of
             (Inl e, w1) \<Rightarrow> (Inl e, w1)
           | (Inr imageJSON, w1) \<Rightarrow>
               (case unmarshalParent (cd l) imageJSON of
                  Inl e \<Rightarrow> (Inl e, w1)
                | Inr parent \<Rightarrow> (Inr (imageJSON, parent), w1))))"

text \<open>\<open>image.NewRootFS()\<close>: the empty root file system of type \<open>layers\<close>.\<close>

definition NewRootFS :: RootFS where
  "NewRootFS = \<lparr>Type = ''layers'', DiffIDs = []\<rparr>"

text \<open>Lines 356-364: the root file system and history to start from.\<close>

definition legacyBase ::
  "'x tarexporter \<Rightarrow> ID \<Rightarrow> 'x world \<Rightarrow> (error + RootFS \<times> History list) \<times> 'x world" where
  "legacyBase l parentID w =
     (if parentID \<noteq> [] then
        (case is_Get l parentID w of
           (Inl e, w1) \<Rightarrow> (Inl e, w1)
         | (Inr parentImg, w1) \<Rightarrow> (Inr (img_RootFS parentImg, img_History parentImg), w1))
      else (Inr (NewRootFS, []), w))"

text \<open>
  Lines 376-401, once \<open>newLayer\<close> is registered: build the configuration, create the
  image, release the layer, link the parent. Every error return before
  \<open>l.ls.Release\<close> leaves without releasing \<open>newLayer\<close>.
\<close>

definition legacyCreate ::
  "'x tarexporter \<Rightarrow> bytes \<Rightarrow> ID \<Rightarrow> RootFS \<Rightarrow> History list \<Rightarrow> Layer \<Rightarrow> 'x world
     \<Rightarrow> (error + ID) \<times> 'x world" where
  "legacyCreate l imageJSON parentID rootFS history newLayer w =
     (case HistoryFromConfig (cd l) imageJSON of
        Inl e \<Rightarrow> (Inl e, w)
      | Inr h \<Rightarrow>
          (case MakeConfigFromV1Config (cd l) imageJSON rootFS (history @ [h]) of
             Inl e \<Rightarrow> (Inl e, w)
           | Inr config \<Rightarrow>
               (case is_Create l config w of
                  (Inl e, w1) \<Rightarrow> (Inl e, w1)
                | (Inr imgID, w1) \<Rightarrow>
                    (case ls_Release l newLayer w1 of
                       (Some e, w2) \<Rightarrow> (Inl e, w2)
                     | (None, w2) \<Rightarrow>
                         if parentID \<noteq> [] then
                           (case is_SetParent l imgID parentID w2 of
                              (Some e, w3) \<Rightarrow> (Inl e, w3)
                            | (None, w3) \<Rightarrow> (Inr imgID, w3))
                         else (Inr imgID, w2)))))"

text \<open>Lines 352-401: everything after the parent is known, up to the new image id.\<close>

definition legacyAssemble ::
  "'x tarexporter \<Rightarrow> filesys \<Rightarrow> string \<Rightarrow> path \<Rightarrow> bytes \<Rightarrow> ID \<Rightarrow> bool \<Rightarrow> 'x world
     \<Rightarrow> (error + ID) \<times> 'x world" where
  "legacyAssemble l fs oldID sourceDir imageJSON parentID po w =
     (case legacyBase l parentID w of
        (Inl e, w1) \<Rightarrow> (Inl e, w1)
      | (Inr (rootFS, history), w1) \<Rightarrow>
          (case safePath fs sourceDir (Join fs [oldID, legacyLayerFileName (nm l)]) of
             Inl e \<Rightarrow> (Inl e, w1)
           | Inr layerPath \<Rightarrow>
               (case loadLayer l fs layerPath rootFS oldID po w1 of
                  (Inl e, w2) \<Rightarrow> (Inl e, w2)
                | (Inr newLayer, w2) \<Rightarrow>
                    legacyCreate l imageJSON parentID (Append rootFS (L_DiffID newLayer))
                      history newLayer w2)))"

text \<open>
  \<open>legacyLoadImage\<close> calls itself for the parent, inside the loop of lines 340-349
  (\<open>legacyParentLoop\<close>), which runs until the parent is in the load map. Neither the
  recursion nor the loop is bounded by the code, so both take fuel: \<open>None\<close> is a run
  that has not returned within it. The load map is passed by reference in Go: the
  model returns it.
\<close>

fun legacyLoadImage ::
  "nat \<Rightarrow> 'x tarexporter \<Rightarrow> filesys \<Rightarrow> string \<Rightarrow> path \<Rightarrow> (string \<rightharpoonup> ID) \<Rightarrow> bool \<Rightarrow> 'x world
     \<Rightarrow> (error option \<times> (string \<rightharpoonup> ID) \<times> 'x world) option"
and legacyParentLoop ::
  "nat \<Rightarrow> 'x tarexporter \<Rightarrow> filesys \<Rightarrow> string \<Rightarrow> path \<Rightarrow> (string \<rightharpoonup> ID) \<Rightarrow> bool \<Rightarrow> 'x world
     \<Rightarrow> ((error + ID) \<times> (string \<rightharpoonup> ID) \<times> 'x world) option" where
  "legacyLoadImage 0 l fs oldID sourceDir loadedMap po w = None"
| "legacyLoadImage (Suc n) l fs oldID sourceDir loadedMap po w =
     (if loadedMap oldID \<noteq> None then Some (None, loadedMap, w)
      else
        case legacyConfig l fs sourceDir oldID w of
          (Inl e, w1) \<Rightarrow> Some (Some e, loadedMap, w1)
        | (Inr (imageJSON, parent), w1) \<Rightarrow>
            (case (if parent \<noteq> [] then legacyParentLoop n l fs parent sourceDir loadedMap po w1
                   else Some (Inr [], loadedMap, w1)) of
               None \<Rightarrow> None
             | Some (Inl e, loadedMap1, w2) \<Rightarrow> Some (Some e, loadedMap1, w2)
             | Some (Inr parentID, loadedMap1, w2) \<Rightarrow>
                 (case legacyAssemble l fs oldID sourceDir imageJSON parentID po w2 of
                    (Inl e, w3) \<Rightarrow> Some (Some e, loadedMap1, w3)
                  | (Inr imgID, w3) \<Rightarrow>
                      Some (None, loadedMap1(oldID \<mapsto> imgID), emit (EvMapStore oldID imgID) w3))))"
| "legacyParentLoop 0 l fs parent sourceDir loadedMap po w = None"
| "legacyParentLoop (Suc n) l fs parent sourceDir loadedMap po w =
     (case loadedMap parent of
        Some parentID \<Rightarrow> Some (Inr parentID, loadedMap, w)
      | None \<Rightarrow>
          (case legacyLoadImage n l fs parent sourceDir loadedMap po w of
             None \<Rightarrow> None
           | Some (Some e, loadedMap1, w1) \<Rightarrow> Some (Inl e, loadedMap1, w1)
           | Some (None, loadedMap1, w1) \<Rightarrow>
               legacyParentLoop n l fs parent sourceDir loadedMap1 po w1))"

subsection \<open>legacyLoad (lines 261-317)\<close>

text \<open>The loop of lines 270-276 over the directory entries.\<close>

fun legacyLoadDirs ::
  "nat \<Rightarrow> 'x tarexporter \<Rightarrow> filesys \<Rightarrow> path \<Rightarrow> (string \<times> bool) list \<Rightarrow> (string \<rightharpoonup> ID) \<Rightarrow> bool
     \<Rightarrow> 'x world \<Rightarrow> (error option \<times> (string \<rightharpoonup> ID) \<times> 'x world) option" where
  "legacyLoadDirs n l fs tmpDir [] loadedMap po w = Some (None, loadedMap, w)"
| "legacyLoadDirs n l fs tmpDir ((d, isDir) # dirs) loadedMap po w =
     (if isDir then
        (case legacyLoadImage n l fs d tmpDir loadedMap po w of
           None \<Rightarrow> None
         | Some (Some e, loadedMap1, w1) \<Rightarrow> Some (Some e, loadedMap1, w1)
         | Some (None, loadedMap1, w1) \<Rightarrow> legacyLoadDirs n l fs tmpDir dirs loadedMap1 po w1)
      else legacyLoadDirs n l fs tmpDir dirs loadedMap po w)"

text \<open>
  The loops of lines 297-314 over the decoded repositories file. The result of
  \<open>setLoadedTag\<close> is dropped.
\<close>

fun legacyRepoTags ::
  "'x tarexporter \<Rightarrow> (string \<rightharpoonup> ID) \<Rightarrow> string \<Rightarrow> (string \<times> string) list \<Rightarrow> 'x world
     \<Rightarrow> error option \<times> 'x world" where
  "legacyRepoTags l loadedMap name [] w = (None, w)"
| "legacyRepoTags l loadedMap name ((tag, oldID) # rest) w =
     (case loadedMap oldID of
        None \<Rightarrow> (Some (InvalidTargetID oldID), w)
      | Some imgID \<Rightarrow>
          (case WithName (rf l) name of
             Inl e \<Rightarrow> (Some e, w)
           | Inr named \<Rightarrow>
               (case WithTag (rf l) named tag of
                  Inl e \<Rightarrow> (Some e, w)
                | Inr ref \<Rightarrow>
                    (case setLoadedTag l ref imgID w of
                       (r, w1) \<Rightarrow>
                         legacyRepoTags l loadedMap name rest
                           (emit (EvWrite (loaded_msg ref imgID)) w1)))))"

fun legacyRepositories ::
  "'x tarexporter \<Rightarrow> (string \<rightharpoonup> ID) \<Rightarrow> (string \<times> (string \<times> string) list) list \<Rightarrow> 'x world
     \<Rightarrow> error option \<times> 'x world" where
  "legacyRepositories l loadedMap [] w = (None, w)"
| "legacyRepositories l loadedMap ((name, tagMap) # rest) w =
     (case legacyRepoTags l loadedMap name tagMap w of
        (Some e, w1) \<Rightarrow> (Some e, w1)
      | (None, w1) \<Rightarrow> legacyRepositories l loadedMap rest w1)"

text \<open>
  Lines 278-316: the repositories file. When \<open>os.Open\<close> fails, \<open>repositoriesFile\<close>
  is nil; for an error of the kind "does not exist" the code returns
  \<open>repositoriesFile.Close()\<close>.
\<close>

definition legacyTags ::
  "'x tarexporter \<Rightarrow> filesys \<Rightarrow> path \<Rightarrow> (string \<rightharpoonup> ID) \<Rightarrow> 'x world \<Rightarrow> error option \<times> 'x world" where
  "legacyTags l fs tmpDir loadedMap w =
     (case safePath fs tmpDir (legacyRepositoriesFileName (nm l)) of
        Inl e \<Rightarrow> (Some e, w)
      | Inr repositoriesPath \<Rightarrow>
          (case open_file fs repositoriesPath w of
             (Inl e, w1) \<Rightarrow> if \<not> IsNotExist e then (Some e, w1) else (nil_File_Close, w1)
           | (Inr repositoriesFile, w1) \<Rightarrow>
               (case decodeRepositories (cd l) repositoriesFile of
                  Inl e \<Rightarrow> (Some e, w1)
                | Inr repositories \<Rightarrow> legacyRepositories l loadedMap repositories w1)))"

definition legacyLoad ::
  "nat \<Rightarrow> 'x tarexporter \<Rightarrow> filesys \<Rightarrow> path \<Rightarrow> bool \<Rightarrow> 'x world
     \<Rightarrow> (error option \<times> 'x world) option" where
  "legacyLoad n l fs tmpDir po w =
     (case ReadDir fs tmpDir of
        Inl e \<Rightarrow> Some (Some e, w)
      | Inr dirs \<Rightarrow>
          (case legacyLoadDirs n l fs tmpDir dirs Map.empty po w of
             None \<Rightarrow> None
           | Some (Some e, loadedMap, w1) \<Rightarrow> Some (Some e, w1)
           | Some (None, loadedMap, w1) \<Rightarrow> Some (legacyTags l fs tmpDir loadedMap w1)))"

subsection \<open>Load (lines 26-76)\<close>

text \<open>
  The host: \<open>ioutil.TempDir\<close> and \<open>chrootarchive.Untar\<close>, which yields the extracted
  tree. \<open>Load\<close> always passes a progress output on.
\<close>

record host =
  TempDir :: "error + path"
  Untar :: "bytes \<Rightarrow> path \<Rightarrow> error + filesys"

text \<open>
  Lines 45-75, inside the extracted tree. Any error of opening the \<open>oci-layout\<close>
  marker leads on to the manifest file; when the manifest file fails to open for a
  reason other than "does not exist", the code returns \<open>manifestFile.Close()\<close> of
  the nil handle.
\<close>

definition dispatch ::
  "nat \<Rightarrow> 'x tarexporter \<Rightarrow> filesys \<Rightarrow> path \<Rightarrow> string \<Rightarrow> (string \<times> string) list \<Rightarrow> 'x world
     \<Rightarrow> (error option \<times> 'x world) option" where
  "dispatch n l fs tmpDir name refs w =
     (case safePath fs tmpDir ''oci-layout'' of
        Inl e \<Rightarrow> Some (Some e, w)
      | Inr ociLayoutPath \<Rightarrow>
          (case open_file fs ociLayoutPath w of
             (Inr ociLayoutFile, w1) \<Rightarrow> Some (ociLoad l fs tmpDir name refs True w1)
           | (Inl e0, w1) \<Rightarrow>
               (case safePath fs tmpDir (manifestFileName (nm l)) of
                  Inl e \<Rightarrow> Some (Some e, w1)
                | Inr manifestPath \<Rightarrow>
                    (case open_file fs manifestPath w1 of
                       (Inl e, w2) \<Rightarrow>
                         if IsNotExist e then legacyLoad n l fs tmpDir True w2
                         else Some (nil_File_Close, w2)
                     | (Inr manifestFile, w2) \<Rightarrow>
                         (case decodeManifest (cd l) manifestFile of
                            Inl e \<Rightarrow> Some (Some e, w2)
                          | Inr manifest \<Rightarrow> Some (loadHelper l fs tmpDir manifest True w2))))))"

definition Load ::
  "nat \<Rightarrow> 'x tarexporter \<Rightarrow> host \<Rightarrow> bytes \<Rightarrow> string \<Rightarrow> (string \<times> string) list \<Rightarrow> 'x world
     \<Rightarrow> (error option \<times> 'x world) option" where
  "Load n l h inTar name refs w =
     (case TempDir h of
        Inl e \<Rightarrow> Some (Some e, w)
      | Inr tmpDir \<Rightarrow>
          (case (case Untar h inTar tmpDir of
                   Inl e \<Rightarrow> Some (Some e, w)
                 | Inr fs \<Rightarrow> dispatch n l fs tmpDir name refs w) of
             None \<Rightarrow> None
           | Some (r, w1) \<Rightarrow> Some (r, emit (EvRemoveAll tmpDir) w1)))"

section \<open>Reading a trace\<close>

text \<open>
  The layer handles a trace hands out (by a successful \<open>ls.Get\<close> or
  \<open>ls.Register\<close>), the handles it releases, and the configurations it passes to
  \<open>is.Create\<close>, each in order.
\<close>

fun acquired :: "event list \<Rightarrow> Layer list" where
  "acquired [] = []"
| "acquired (EvLsGet c (Some h) # es) = h # acquired es"
| "acquired (EvLsRegister s c (Some h) # es) = h # acquired es"
| "acquired (e # es) = acquired es"

fun released :: "event list \<Rightarrow> Layer list" where
  "released [] = []"
| "released (EvLsRelease h # es) = h # released es"
| "released (e # es) = released es"

fun creates :: "event list \<Rightarrow> bytes list" where
  "creates [] = []"
| "creates (EvIsCreate c i # es) = c # creates es"
| "creates (e # es) = creates es"

text \<open>
  The legacy loader registers a layer, creates the image and then writes the load map,
  with no call of itself in between. \<open>blocks\<close> cuts a trace at the writes to the load
  map: for every write it gives the old id, the image id, and the numbers of
  \<open>ls.Register\<close> and of \<open>is.Create\<close> calls since the write before.
  \<open>pending\<close> gives the two numbers for the calls after the last write.
\<close>

fun blocks :: "nat \<Rightarrow> nat \<Rightarrow> event list \<Rightarrow> (string \<times> ID \<times> nat \<times> nat) list" where
  "blocks r c [] = []"
| "blocks r c (EvLsRegister s p h # es) = blocks (Suc r) c es"
| "blocks r c (EvIsCreate cfg i # es) = blocks r (Suc c) es"
| "blocks r c (EvMapStore q i # es) = (q, i, r, c) # blocks 0 0 es"
| "blocks r c (e # es) = blocks r c es"

fun pending :: "nat \<Rightarrow> nat \<Rightarrow> event list \<Rightarrow> nat \<times> nat" where
  "pending r c [] = (r, c)"
| "pending r c (EvLsRegister s p h # es) = pending (Suc r) c es"
| "pending r c (EvIsCreate cfg i # es) = pending r (Suc c) es"
| "pending r c (EvMapStore q i # es) = pending 0 0 es"
| "pending r c (e # es) = pending r c es"

section \<open>Legacy parents\<close>

text \<open>
  The parent an old id declares: the non-empty \<open>Parent\<close> field of its json file, when
  the file can be resolved, read and parsed (lines 323-339). \<open>parentRel\<close> relates a
  declared parent to its child.
\<close>

definition declaredParent :: "'x tarexporter \<Rightarrow> filesys \<Rightarrow> path \<Rightarrow> string \<Rightarrow> string option" where
  "declaredParent l fs sourceDir oldID =
     (case safePath fs sourceDir (Join fs [oldID, legacyConfigFileName (nm l)]) of
        Inl e \<Rightarrow> None
      | Inr configPath \<Rightarrow>
          (case os_Open fs configPath of
             Inl e \<Rightarrow> None
           | Inr imageJSON \<Rightarrow>
               (case unmarshalParent (cd l) imageJSON of
                  Inl e \<Rightarrow> None
                | Inr parent \<Rightarrow> if parent = [] then None else Some parent)))"

definition parentRel :: "'x tarexporter \<Rightarrow> filesys \<Rightarrow> path \<Rightarrow> (string \<times> string) set" where
  "parentRel l fs sourceDir = {(p, c). declaredParent l fs sourceDir c = Some p}"

text \<open>
  What a run of the legacy loader that ended well has done, from the load map \<open>M\<close>
  to \<open>M'\<close>, by the events \<open>es\<close>: the map has only grown, every old id in it has a
  finite chain of parents, every old id was written once, after one registration and one
  creation, and the parent of every image written is in the map and was linked.
\<close>

definition legacy_ok ::
  "'x tarexporter \<Rightarrow> filesys \<Rightarrow> path \<Rightarrow> (string \<rightharpoonup> ID) \<Rightarrow> (string \<rightharpoonup> ID) \<Rightarrow> event list \<Rightarrow> bool" where
  "legacy_ok l fs sd M M' es \<longleftrightarrow>
     M \<subseteq>\<^sub>m M' \<and> dom M' \<subseteq> Wellfounded.acc (parentRel l fs sd) \<and> pending 0 0 es = (0, 0) \<and>
     distinct (map fst (blocks 0 0 es)) \<and>
     (\<forall>q i r c. (q, i, r, c) \<in> set (blocks 0 0 es) \<longrightarrow>
        r = 1 \<and> c = 1 \<and> M q = None \<and> M' q = Some i \<and>
        (\<forall>p. declaredParent l fs sd q = Some p \<longrightarrow>
           (\<exists>pid. M' p = Some pid \<and> (pid \<noteq> [] \<longrightarrow> EvIsSetParent i pid \<in> set es)))) \<and>
     (\<forall>q. M q = None \<and> M' q \<noteq> None \<longrightarrow> q \<in> fst ` set (blocks 0 0 es))"

section \<open>The lookup discipline of the structured path\<close>








text \<open>The chain ids a trace looks up in the layer store.\<close>

fun lookups :: "event list \<Rightarrow> ChainID list" where
  "lookups [] = []"
| "lookups (EvLsGet c h # es) = c # lookups es"
| "lookups (e # es) = lookups es"


section \<open>A reference environment\<close>

text \<open>
  A small executable instance of every collaborator, used to run the loader on concrete
  archives. Paths are joined with a slash and there are no symbolic links. A layer's
  DiffID is its inflated data, a chain id is the concatenation of the DiffIDs beneath
  it, an image configuration is the concatenation of its DiffIDs (each one character),
  a legacy json file holds just the parent's name, and an image id is the
  configuration behind the prefix \<open>id-\<close>.
\<close>

definition demo_Join :: "string list \<Rightarrow> path" where
  "demo_Join xs = foldr (\<lambda>a b. if b = [] then a else a @ ''/'' @ b) xs []"

definition demo_fs :: "(path \<times> bytes) list \<Rightarrow> (string \<times> bool) list \<Rightarrow> filesys" where
  "demo_fs files dirs =
     \<lparr>Join = demo_Join,
      FollowSymlinkInScope = (\<lambda>p base. Inr p),
      os_Open = (\<lambda>p. case map_of files p of None \<Rightarrow> Inl (OSNotExist p) | Some b \<Rightarrow> Inr b),
      Stat = (\<lambda>p. case map_of files p of None \<Rightarrow> Inl (OSNotExist p) | Some b \<Rightarrow> Inr (length b)),
      ReadDir = (\<lambda>p. Inr dirs)\<rparr>"

definition demo_image :: "bytes \<Rightarrow> Image" where
  "demo_image c = \<lparr>img_RootFS = \<lparr>Type = ''layers'', DiffIDs = map (\<lambda>ch. [ch]) c\<rparr>, img_History = []\<rparr>"

definition demo_codec ::
  "manifestItem list \<Rightarrow> ImageIndex \<Rightarrow> Manifest \<Rightarrow> (string \<times> (string \<times> string) list) list \<Rightarrow> codec" where
  "demo_codec manifest index man repos =
     \<lparr>decodeManifest = (\<lambda>b. Inr manifest),
      decodeIndex = (\<lambda>b. Inr index),
      decodeOCIManifest = (\<lambda>b. Inr man),
      decodeRepositories = (\<lambda>b. Inr repos),
      unmarshalParent = (\<lambda>b. Inr b),
      NewFromJSON = (\<lambda>b. Inr (demo_image b)),
      HistoryFromConfig = (\<lambda>b. Inr b),
      MakeConfigFromV1Config = (\<lambda>b r h. Inr (concat (DiffIDs r))),
      ChainID = (\<lambda>r. concat (DiffIDs r)),
      DecompressStream = (\<lambda>b. Inr b),
      TruncateID = take 12\<rparr>"

definition demo_parse :: "string \<Rightarrow> Named" where
  "demo_parse s =
     \<lparr>ref_Name = takeWhile (\<lambda>c. c \<noteq> CHR '':'') s,
      ref_Tag = (if CHR '':'' \<in> set s then Some (drop 1 (dropWhile (\<lambda>c. c \<noteq> CHR '':'') s))
                 else None)\<rparr>"

definition demo_naming :: naming where
  "demo_naming =
     \<lparr>ParseNamed = (\<lambda>s. Inr (demo_parse s)),
      WithName = (\<lambda>s. Inr \<lparr>ref_Name = s, ref_Tag = None\<rparr>),
      WithTag = (\<lambda>r t. Inr (r\<lparr>ref_Tag := Some t\<rparr>)),
      getRefs = (\<lambda>refs. Inr (map (\<lambda>(k, v). (k, demo_parse v)) refs)),
      Algorithm = takeWhile (\<lambda>c. c \<noteq> CHR '':''),
      Hex = (\<lambda>d. drop 1 (dropWhile (\<lambda>c. c \<noteq> CHR '':'') d))\<rparr>"

definition demo_names :: fileNames where
  "demo_names =
     \<lparr>manifestFileName = ''manifest.json'',
      legacyRepositoriesFileName = ''repositories'',
      legacyConfigFileName = ''json'',
      legacyLayerFileName = ''layer.tar''\<rparr>"

record dstore =
  d_layers :: "(ChainID \<times> DiffID) list"
  d_images :: "ID list"
  d_parents :: "(ID \<times> ID) list"
  d_tags :: "(string \<times> ID) list"

definition demo_stores :: "dstore stores" where
  "demo_stores =
     \<lparr>lsGet = (\<lambda>c x. case map_of (d_layers x) c of
                 None \<Rightarrow> (Inl (Other ''layer does not exist''), x)
               | Some d \<Rightarrow> (Inr \<lparr>L_ChainID = c, L_DiffID = d\<rparr>, x)),
      lsRegister = (\<lambda>s p x.
                 (Inr \<lparr>L_ChainID = p @ s_data s, L_DiffID = s_data s\<rparr>,
                  x\<lparr>d_layers := (p @ s_data s, s_data s) # d_layers x\<rparr>)),
      lsRelease = (\<lambda>h x. (None, x)),
      isCreate = (\<lambda>c x. (Inr (''id-'' @ c), x\<lparr>d_images := (''id-'' @ c) # d_images x\<rparr>)),
      isGet = (\<lambda>i x. if i \<in> set (d_images x) then (Inr (demo_image (drop 3 i)), x)
                 else (Inl (Other ''no such image''), x)),
      isSetParent = (\<lambda>i p x. (None, x\<lparr>d_parents := (i, p) # d_parents x\<rparr>)),
      rsGet = (\<lambda>n x. case map_of (d_tags x) (ref_String n) of
                 None \<Rightarrow> (Inl (Other ''reference does not exist''), x)
               | Some i \<Rightarrow> (Inr i, x)),
      rsAddTag = (\<lambda>n i force x. (None, x\<lparr>d_tags := (ref_String n, i) # d_tags x\<rparr>))\<rparr>"

definition demo_exporter :: "codec \<Rightarrow> dstore tarexporter" where
  "demo_exporter c = \<lparr>cd = c, rf = demo_naming, nm = demo_names, st = demo_stores\<rparr>"

definition dstore0 :: dstore where
  "dstore0 = \<lparr>d_layers = [], d_images = [], d_parents = [], d_tags = []\<rparr>"

definition world0 :: "dstore world" where
  "world0 = \<lparr>ext = dstore0, trace = []\<rparr>"

definition no_index :: ImageIndex where
  "no_index = \<lparr>Manifests = []\<rparr>"

definition no_manifest :: Manifest where
  "no_manifest = \<lparr>oci_Config = \<lparr>MediaType = [], Digest = [], Annotations = []\<rparr>, oci_Layers = []\<rparr>"

section \<open>Concrete archives\<close>

text \<open>A manifest item whose configuration declares three layers and which supplies two blobs.\<close>

definition three_two :: manifestItem where
  "three_two = \<lparr>Config = ''cfg'', RepoTags = [], Layers = [''l1'', ''l2'']\<rparr>"

definition plain_exporter :: "dstore tarexporter" where
  "plain_exporter = demo_exporter (demo_codec [] no_index no_manifest [])"

definition demo_host :: "filesys \<Rightarrow> host" where
  "demo_host fs = \<lparr>TempDir = Inr ''/t'', Untar = (\<lambda>b p. Inr fs)\<rparr>"

text \<open>
  An OCI layout whose \<open>index.json\<close> is a symbolic link to a file outside the
  extraction root: the path guard refuses it, the operating system follows it.
\<close>

definition planted_fs :: filesys where
  "planted_fs = (demo_fs [(''/t/oci-layout'', ''{}''), (''/t/index.json'', ''root:x:0:0'')] [])
     \<lparr>FollowSymlinkInScope :=
        (\<lambda>p base. if p = ''/t/index.json'' then Inl (Other ''path escapes the root'')
                   else Inr p)\<rparr>"

text \<open>
  A legacy archive with one image directory \<open>X\<close> (no parent, one layer) and no
  repositories file.
\<close>

definition legacy_fs :: filesys where
  "legacy_fs = demo_fs [(''/t/X/json'', ''''), (''/t/X/layer.tar'', ''a'')] [(''X'', True)]"

text \<open>An exporter for which the legacy json of an image has no parsable creation time.\<close>

definition bad_history_exporter :: "dstore tarexporter" where
  "bad_history_exporter =
     demo_exporter ((demo_codec [] no_index no_manifest [])
       \<lparr>HistoryFromConfig := (\<lambda>b. Inl (Other ''cannot parse created''))\<rparr>)"

text \<open>A tree whose manifest file exists and cannot be opened; there is no marker.\<close>

definition denied_fs :: filesys where
  "denied_fs = (demo_fs [] [])
     \<lparr>os_Open := (\<lambda>p. if p = ''/t/manifest.json'' then Inl (Other ''permission denied'')
                        else Inl (OSNotExist p))\<rparr>"

text \<open>A tree whose \<open>oci-layout\<close> marker exists and cannot be opened, beside a manifest file.\<close>

definition marker_denied_fs :: filesys where
  "marker_denied_fs = (demo_fs [] [])
     \<lparr>os_Open := (\<lambda>p. if p = ''/t/oci-layout'' then Inl (Other ''permission denied'')
                        else if p = ''/t/manifest.json'' then Inr ''[]''
                        else Inl (OSNotExist p))\<rparr>"

text \<open>
  A manifest item with two tags in the repository \<open>sha256\<close>, and a reference store
  that refuses them.
\<close>

definition two_tags :: manifestItem where
  "two_tags = \<lparr>Config = ''cfg'', RepoTags = [''sha256:a'', ''sha256:b''], Layers = []\<rparr>"

definition failing_tag_exporter :: "dstore tarexporter" where
  "failing_tag_exporter = plain_exporter
     \<lparr>st := demo_stores
        \<lparr>rsAddTag :=
           (\<lambda>n i force x. (Some (Other ''refusing to create an ambiguous tag''), x))\<rparr>\<rparr>"

text \<open>
  A manifest item whose configuration declares the layers \<open>a\<close> and \<open>b\<close>, while the
  second blob holds the layer \<open>x\<close>.
\<close>

definition lying_item :: manifestItem where
  "lying_item = \<lparr>Config = ''cfg'', RepoTags = [''sample:latest''], Layers = [''l1'', ''l2'']\<rparr>"

definition lying_fs :: filesys where
  "lying_fs = demo_fs [(''/t/cfg'', ''ab''), (''/t/l1'', ''a''), (''/t/l2'', ''x'')] []"

text \<open>
  A legacy archive with the image directories \<open>A\<close>, \<open>B\<close> and \<open>P\<close>, where
  \<open>A\<close> and \<open>B\<close> both declare the parent \<open>P\<close>, and no repositories file.
\<close>

definition family_fs :: filesys where
  "family_fs = demo_fs
     [(''/t/A/json'', ''P''), (''/t/A/layer.tar'', ''b''),
      (''/t/B/json'', ''P''), (''/t/B/layer.tar'', ''c''),
      (''/t/P/json'', ''''), (''/t/P/layer.tar'', ''a'')]
     [(''A'', True), (''B'', True), (''P'', True)]"

text \<open>The load map and the world after the archive \<open>family_fs\<close> has been loaded.\<close>

definition family_map :: "string \<rightharpoonup> ID" where
  "family_map = [''P'' \<mapsto> ''id-a'', ''A'' \<mapsto> ''id-ab'', ''B'' \<mapsto> ''id-ac'']"

definition family_trace :: "event list" where
  "family_trace =
     [EvOpen ''/t/A/json'', EvOpen ''/t/P/json'', EvOpen ''/t/P/layer.tar'',
      EvLsRegister \<lparr>s_data = ''a'', s_progress = Some (1, ''P'')\<rparr> []
        (Some \<lparr>L_ChainID = ''a'', L_DiffID = ''a''\<rparr>),
      EvIsCreate ''a'' (Some ''id-a''),
      EvLsRelease \<lparr>L_ChainID = ''a'', L_DiffID = ''a''\<rparr>,
      EvMapStore ''P'' ''id-a'', EvIsGet ''id-a'', EvOpen ''/t/A/layer.tar'',
      EvLsRegister \<lparr>s_data = ''b'', s_progress = Some (1, ''A'')\<rparr> ''a''
        (Some \<lparr>L_ChainID = ''ab'', L_DiffID = ''b''\<rparr>),
      EvIsCreate ''ab'' (Some ''id-ab''),
      EvLsRelease \<lparr>L_ChainID = ''ab'', L_DiffID = ''b''\<rparr>,
      EvIsSetParent ''id-ab'' ''id-a'', EvMapStore ''A'' ''id-ab'',
      EvOpen ''/t/B/json'', EvIsGet ''id-a'', EvOpen ''/t/B/layer.tar'',
      EvLsRegister \<lparr>s_data = ''c'', s_progress = Some (1, ''B'')\<rparr> ''a''
        (Some \<lparr>L_ChainID = ''ac'', L_DiffID = ''c''\<rparr>),
      EvIsCreate ''ac'' (Some ''id-ac''),
      EvLsRelease \<lparr>L_ChainID = ''ac'', L_DiffID = ''c''\<rparr>,
      EvIsSetParent ''id-ac'' ''id-a'', EvMapStore ''B'' ''id-ac'']"

definition family_world :: "dstore world" where
  "family_world =
     \<lparr>ext = \<lparr>d_layers = [(''ac'', ''c''), (''ab'', ''b''), (''a'', ''a'')],
              d_images = [''id-ac'', ''id-ab'', ''id-a''],
              d_parents = [(''id-ac'', ''id-a''), (''id-ab'', ''id-a'')],
              d_tags = []\<rparr>,
      trace = family_trace\<rparr>"






text \<open>
  A manifest item that loads well (one layer \<open>a\<close>, one tag), and an OCI layout with one
  image manifest, annotated \<open>v1\<close>, whose configuration blob is \<open>c\<close> and whose layer
  blobs are \<open>x\<close> and \<open>y\<close>; \<open>oci_item\<close> is the manifest item \<open>ociLoad\<close> makes of it
  for the name \<open>myimage\<close>.
\<close>

definition good_item :: manifestItem where
  "good_item = \<lparr>Config = ''cfg1'', RepoTags = [''sample:latest''], Layers = [''l1'']\<rparr>"

definition oci_index :: ImageIndex where
  "oci_index =
     \<lparr>Manifests =
        [\<lparr>MediaType = MediaTypeImageManifest, Digest = ''sha256:m'',
          Annotations = [(''org.opencontainers.ref.name'', ''v1'')]\<rparr>]\<rparr>"

definition oci_manifest :: Manifest where
  "oci_manifest =
     \<lparr>oci_Config = \<lparr>MediaType = [], Digest = ''sha256:c'', Annotations = []\<rparr>,
      oci_Layers = [\<lparr>MediaType = [], Digest = ''sha256:x'', Annotations = []\<rparr>,
                    \<lparr>MediaType = [], Digest = ''sha256:y'', Annotations = []\<rparr>]\<rparr>"

definition oci_item :: manifestItem where
  "oci_item =
     \<lparr>Config = ''blobs/sha256/c'', RepoTags = [''myimage:v1''],
      Layers = [''blobs/sha256/x'', ''blobs/sha256/y'']\<rparr>"

text \<open>
  Archives whose configuration declares three layers for two blobs: a structured one,
  behind an item that loads well, and an OCI layout.
\<close>

definition short_exporter :: "dstore tarexporter" where
  "short_exporter = demo_exporter (demo_codec [good_item, three_two] oci_index oci_manifest [])"

definition short_fs :: filesys where
  "short_fs = demo_fs
     [(''/t/manifest.json'', ''[]''), (''/t/cfg1'', ''a''), (''/t/l1'', ''a''),
      (''/t/cfg'', ''abc'')] []"

definition short_oci_fs :: filesys where
  "short_oci_fs = demo_fs
     [(''/t/oci-layout'', ''{}''), (''/t/index.json'', ''{}''), (''/t/blobs/sha256/m'', ''{}''),
      (''/t/blobs/sha256/c'', ''abc'')] []"

text \<open>
  Archives whose second layer is not the declared one: a structured one
  (\<open>lying_item\<close>, alone or behind \<open>good_item\<close>) and an OCI layout.
\<close>

definition lying_exporter :: "dstore tarexporter" where
  "lying_exporter = demo_exporter (demo_codec [lying_item] oci_index oci_manifest [])"

definition lying_batch_fs :: filesys where
  "lying_batch_fs = demo_fs
     [(''/t/manifest.json'', ''[]''), (''/t/cfg1'', ''a''), (''/t/cfg'', ''ab''),
      (''/t/l1'', ''a''), (''/t/l2'', ''x'')] []"

definition lying_oci_fs :: filesys where
  "lying_oci_fs = demo_fs
     [(''/t/oci-layout'', ''{}''), (''/t/index.json'', ''{}''), (''/t/blobs/sha256/m'', ''{}''),
      (''/t/blobs/sha256/c'', ''ab''), (''/t/blobs/sha256/x'', ''a''),
      (''/t/blobs/sha256/y'', ''q'')] []"

section \<open>Properties\<close>

lemmas demo_defs = demo_Join_def demo_fs_def demo_image_def demo_codec_def demo_parse_def
  demo_naming_def demo_names_def demo_stores_def demo_exporter_def dstore0_def world0_def
  no_index_def no_manifest_def

lemmas call_defs = emit_def result_def open_file_def ls_Get_def ls_Register_def ls_Release_def
  is_Create_def is_Get_def is_SetParent_def rs_Get_def rs_AddTag_def

lemmas run_defs = call_defs safePath_def loadLayer_def setLoadedTag_def loaded_msg_def
  getOrLoad_def loadItem_def loadHelper_def Append_def ref_String_def

subsection \<open>The first item that fails\<close>

text \<open>
  \<open>loadHelper\<close> returns from inside its loop at the first manifest item that fails, and
  its deferred releases run then; \<open>Load\<close> hands that error on, on the structured path
  (no \<open>oci-layout\<close> marker) and on the OCI path, after removing the temporary directory.
\<close>

lemma loadManifests_append:
  "loadManifests l fs tmpDir po pre ds0 w0 = (None, ds, w) \<Longrightarrow>
   loadManifests l fs tmpDir po (pre @ rest) ds0 w0 = loadManifests l fs tmpDir po rest ds w"
proof (induction pre arbitrary: ds0 w0)
  case Nil
  then show ?case by simp
next
  case (Cons m pre)
  obtain r1 ds1 w1 where it: "loadItem l fs tmpDir po m ds0 w0 = (r1, ds1, w1)"
    by (cases "loadItem l fs tmpDir po m ds0 w0") auto
  with Cons.prems have r1: "r1 = None" by (cases r1) auto
  with Cons.prems it have "loadManifests l fs tmpDir po pre ds1 w1 = (None, ds, w)" by simp
  from Cons.IH [OF this] it r1 show ?case by simp
qed

lemma loadHelper_stops:
  assumes "loadManifests l fs tmpDir po pre [] w0 = (None, ds, w)"
      and "loadItem l fs tmpDir po m ds w = (Some e, ds', w')"
  shows "loadHelper l fs tmpDir (pre @ m # ms) po w0 = (Some e, runDeferred l ds' w')"
  using assms by (simp add: loadHelper_def loadManifests_append)

lemma Load_structured_stops:
  assumes "TempDir h = Inr tmpDir" and "Untar h inTar tmpDir = Inr fs"
      and "safePath fs tmpDir ''oci-layout'' = Inr lp" and "os_Open fs lp = Inl e0"
      and "safePath fs tmpDir (manifestFileName (nm l)) = Inr mp" and "os_Open fs mp = Inr mf"
      and "decodeManifest (cd l) mf = Inr (pre @ m # ms)"
      and "loadManifests l fs tmpDir True pre [] (emit (EvOpen mp) (emit (EvOpen lp) v)) = (None, ds, w)"
      and "loadItem l fs tmpDir True m ds w = (Some e, ds', w')"
  shows "Load n l h inTar name refs v =
           Some (Some e, emit (EvRemoveAll tmpDir) (runDeferred l ds' w'))"
  using assms loadHelper_stops [OF assms(8) assms(9), of ms]
  by (simp add: Load_def dispatch_def open_file_def)

lemma Load_oci_stops:
  assumes "TempDir h = Inr tmpDir" and "Untar h inTar tmpDir = Inr fs"
      and "safePath fs tmpDir ''oci-layout'' = Inr lp" and "os_Open fs lp = Inr lf"
      and "(name = []) = (refs \<noteq> [])"
      and "os_Open fs (Join fs [tmpDir, ''index.json'']) = Inr ij"
      and "decodeIndex (cd l) ij = Inr index"
      and "ociManifests l fs tmpDir name refs (Manifests index) []
             (emit (EvOpen (Join fs [tmpDir, ''index.json''])) (emit (EvOpen lp) v)) =
             (Inr (pre @ m # ms), v2)"
      and "loadManifests l fs tmpDir True pre [] v2 = (None, ds, w)"
      and "loadItem l fs tmpDir True m ds w = (Some e, ds', w')"
  shows "Load n l h inTar name refs v =
           Some (Some e, emit (EvRemoveAll tmpDir) (runDeferred l ds' w'))"
  using assms loadHelper_stops [OF assms(9) assms(10), of ms]
  by (auto simp: Load_def dispatch_def ociLoad_def open_file_def)

subsection \<open>The layer count of a configuration\<close>

text \<open>
  Claim C10. In the structured and OCI path (\<open>loadHelper\<close>), when the configuration of
  a manifest item has been read and parsed and the number of DiffIDs it declares differs
  from the number of layer paths of the item, in either direction, the import stops at
  that item with the layers-length-mismatch error (the spec's InvalidConfig). Nothing
  of the item has been resolved by then: no layer handle was acquired, the stores are
  untouched, and the only event is the opening of the configuration file. The import
  fails with that error: after any items \<open>pre\<close> that loaded well, \<open>loadHelper\<close>
  returns it (having run the deferred releases of the handles of \<open>pre\<close>), and so does
  \<open>Load\<close>, on the structured path and on the OCI path.
\<close>

theorem C10_layer_count_mismatch:
  assumes "safePath fs tmpDir (Config m) = Inr configPath"
      and "os_Open fs configPath = Inr config"
      and "NewFromJSON (cd l) config = Inr img"
      and "length (Layers m) \<noteq> length (DiffIDs (img_RootFS img))"
  shows "loadManifests l fs tmpDir po (m # ms) ds w =
           (Some (LayersLengthMismatch (length (Layers m)) (length (DiffIDs (img_RootFS img)))),
            ds, emit (EvOpen configPath) w) \<and>
         (loadManifests l fs tmpDir po pre [] w0 = (None, ds, w) \<longrightarrow>
            loadHelper l fs tmpDir (pre @ m # ms) po w0 =
              (Some (LayersLengthMismatch (length (Layers m)) (length (DiffIDs (img_RootFS img)))),
               runDeferred l ds (emit (EvOpen configPath) w))) \<and>
         (TempDir h = Inr tmpDir \<and> Untar h inTar tmpDir = Inr fs \<and>
          safePath fs tmpDir ''oci-layout'' = Inr lp \<and> os_Open fs lp = Inl e0 \<and>
          safePath fs tmpDir (manifestFileName (nm l)) = Inr mp \<and> os_Open fs mp = Inr mf \<and>
          decodeManifest (cd l) mf = Inr (pre @ m # ms) \<and>
          loadManifests l fs tmpDir True pre [] (emit (EvOpen mp) (emit (EvOpen lp) v)) =
            (None, ds, w) \<longrightarrow>
            Load n l h inTar name refs v =
              Some (Some (LayersLengthMismatch (length (Layers m))
                      (length (DiffIDs (img_RootFS img)))),
                    emit (EvRemoveAll tmpDir) (runDeferred l ds (emit (EvOpen configPath) w)))) \<and>
         (TempDir h = Inr tmpDir \<and> Untar h inTar tmpDir = Inr fs \<and>
          safePath fs tmpDir ''oci-layout'' = Inr lp \<and> os_Open fs lp = Inr lf \<and>
          (name = []) = (refs \<noteq> []) \<and>
          os_Open fs (Join fs [tmpDir, ''index.json'']) = Inr ij \<and>
          decodeIndex (cd l) ij = Inr index \<and>
          ociManifests l fs tmpDir name refs (Manifests index) []
            (emit (EvOpen (Join fs [tmpDir, ''index.json''])) (emit (EvOpen lp) v)) =
            (Inr (pre @ m # ms), v2) \<and>
          loadManifests l fs tmpDir True pre [] v2 = (None, ds, w) \<longrightarrow>
            Load n l h inTar name refs v =
              Some (Some (LayersLengthMismatch (length (Layers m))
                      (length (DiffIDs (img_RootFS img)))),
                    emit (EvRemoveAll tmpDir) (runDeferred l ds (emit (EvOpen configPath) w))))"
proof -
  let ?E = "LayersLengthMismatch (length (Layers m)) (length (DiffIDs (img_RootFS img)))"
  have item: "\<And>po ds w. loadItem l fs tmpDir po m ds w = (Some ?E, ds, emit (EvOpen configPath) w)"
    using assms by (simp add: loadItem_def open_file_def)
  have a: "loadManifests l fs tmpDir po (m # ms) ds w = (Some ?E, ds, emit (EvOpen configPath) w)"
    by (simp add: item)
  have b: "loadManifests l fs tmpDir po pre [] w0 = (None, ds, w) \<longrightarrow>
            loadHelper l fs tmpDir (pre @ m # ms) po w0 =
              (Some ?E, runDeferred l ds (emit (EvOpen configPath) w))"
    using loadHelper_stops [OF _ item] by blast
  have c: "TempDir h = Inr tmpDir \<and> Untar h inTar tmpDir = Inr fs \<and>
          safePath fs tmpDir ''oci-layout'' = Inr lp \<and> os_Open fs lp = Inl e0 \<and>
          safePath fs tmpDir (manifestFileName (nm l)) = Inr mp \<and> os_Open fs mp = Inr mf \<and>
          decodeManifest (cd l) mf = Inr (pre @ m # ms) \<and>
          loadManifests l fs tmpDir True pre [] (emit (EvOpen mp) (emit (EvOpen lp) v)) =
            (None, ds, w) \<longrightarrow>
            Load n l h inTar name refs v =
              Some (Some ?E, emit (EvRemoveAll tmpDir) (runDeferred l ds (emit (EvOpen configPath) w)))"
    by (intro impI, elim conjE, rule Load_structured_stops [OF _ _ _ _ _ _ _ _ item])
  have d: "TempDir h = Inr tmpDir \<and> Untar h inTar tmpDir = Inr fs \<and>
          safePath fs tmpDir ''oci-layout'' = Inr lp \<and> os_Open fs lp = Inr lf \<and>
          (name = []) = (refs \<noteq> []) \<and>
          os_Open fs (Join fs [tmpDir, ''index.json'']) = Inr ij \<and>
          decodeIndex (cd l) ij = Inr index \<and>
          ociManifests l fs tmpDir name refs (Manifests index) []
            (emit (EvOpen (Join fs [tmpDir, ''index.json''])) (emit (EvOpen lp) v)) =
            (Inr (pre @ m # ms), v2) \<and>
          loadManifests l fs tmpDir True pre [] v2 = (None, ds, w) \<longrightarrow>
            Load n l h inTar name refs v =
              Some (Some ?E, emit (EvRemoveAll tmpDir) (runDeferred l ds (emit (EvOpen configPath) w)))"
    by (intro impI, elim conjE, rule Load_oci_stops [OF _ _ _ _ _ _ _ _ _ item])
  from a b c d show ?thesis by blast
qed

lemma short_batch_cfg:
  "safePath short_fs ''/t'' (Config three_two) = Inr ''/t/cfg''"
  "os_Open short_fs ''/t/cfg'' = Inr ''abc''"
  "NewFromJSON (cd short_exporter) ''abc'' = Inr (demo_image ''abc'')"
  "length (Layers three_two) \<noteq> length (DiffIDs (img_RootFS (demo_image ''abc'')))"
  by (simp_all add: safePath_def short_fs_def short_exporter_def three_two_def demo_defs)

lemma short_oci_cfg:
  "safePath short_oci_fs ''/t'' (Config oci_item) = Inr ''/t/blobs/sha256/c''"
  "os_Open short_oci_fs ''/t/blobs/sha256/c'' = Inr ''abc''"
  "length (Layers oci_item) \<noteq> length (DiffIDs (img_RootFS (demo_image ''abc'')))"
  by (simp_all add: safePath_def short_oci_fs_def oci_item_def demo_defs)

theorem C10_layer_count_mismatch_witness:
  "loadManifests short_exporter short_fs ''/t'' True [three_two] [] world0 =
     (Some (LayersLengthMismatch 2 3), [], emit (EvOpen ''/t/cfg'') world0) \<and>
   fst (loadHelper short_exporter short_fs ''/t'' [good_item, three_two] True world0) =
     Some (LayersLengthMismatch 2 3) \<and>
   map_option fst (Load 1 short_exporter (demo_host short_fs) ''tar'' [] [] world0) =
     Some (Some (LayersLengthMismatch 2 3)) \<and>
   map_option fst (Load 1 short_exporter (demo_host short_oci_fs) ''tar'' ''myimage'' [] world0) =
     Some (Some (LayersLengthMismatch 2 3))"
proof -
  note S = C10_layer_count_mismatch [OF short_batch_cfg]
  note O = C10_layer_count_mismatch [OF short_oci_cfg(1) short_oci_cfg(2) short_batch_cfg(3) short_oci_cfg(3)]
  have a: "loadManifests short_exporter short_fs ''/t'' True [three_two] [] world0 =
     (Some (LayersLengthMismatch 2 3), [], emit (EvOpen ''/t/cfg'') world0)"
    using S [where po = True and ms = "[]" and ds = "[]" and w = world0, THEN conjunct1]
    by (simp add: three_two_def demo_image_def)
  obtain ds w where pre: "loadManifests short_exporter short_fs ''/t'' True [good_item] [] world0 =
      (None, ds, w)"
    by (simp add: short_exporter_def short_fs_def good_item_def demo_defs run_defs)
  have b: "fst (loadHelper short_exporter short_fs ''/t'' [good_item, three_two] True world0) =
     Some (LayersLengthMismatch 2 3)"
    using S [where po = True and ms = "[]" and ds = ds and w = w and pre = "[good_item]"
        and ?w0.0 = world0, THEN conjunct2, THEN conjunct1, rule_format, OF pre]
    by (simp add: three_two_def demo_image_def)
  let ?v = "emit (EvOpen ''/t/manifest.json'') (emit (EvOpen ''/t/oci-layout'') world0)"
  obtain ds1 w1 where pre1: "loadManifests short_exporter short_fs ''/t'' True [good_item] [] ?v =
      (None, ds1, w1)"
    by (simp add: short_exporter_def short_fs_def good_item_def demo_defs run_defs)
  have c: "map_option fst (Load 1 short_exporter (demo_host short_fs) ''tar'' [] [] world0) =
     Some (Some (LayersLengthMismatch 2 3))"
  proof -
    have hyp: "TempDir (demo_host short_fs) = Inr ''/t'' \<and>
        Untar (demo_host short_fs) ''tar'' ''/t'' = Inr short_fs \<and>
        safePath short_fs ''/t'' ''oci-layout'' = Inr ''/t/oci-layout'' \<and>
        os_Open short_fs ''/t/oci-layout'' = Inl (OSNotExist ''/t/oci-layout'') \<and>
        safePath short_fs ''/t'' (manifestFileName (nm short_exporter)) = Inr ''/t/manifest.json'' \<and>
        os_Open short_fs ''/t/manifest.json'' = Inr ''[]'' \<and>
        decodeManifest (cd short_exporter) ''[]'' = Inr ([good_item] @ three_two # []) \<and>
        loadManifests short_exporter short_fs ''/t'' True [good_item] [] ?v = (None, ds1, w1)"
      using pre1 by (simp add: demo_host_def safePath_def short_fs_def short_exporter_def demo_defs)
    from S [where ds = ds1 and w = w1 and pre = "[good_item]" and ms = "[]" and v = world0
        and h = "demo_host short_fs" and inTar = "''tar''" and n = 1 and name = "[]" and refs = "[]",
        THEN conjunct2, THEN conjunct2, THEN conjunct1, rule_format, OF hyp]
    show ?thesis by (simp add: three_two_def demo_image_def)
  qed
  have d: "map_option fst (Load 1 short_exporter (demo_host short_oci_fs) ''tar'' ''myimage'' [] world0) =
     Some (Some (LayersLengthMismatch 2 3))"
  proof -
    let ?v1 = "emit (EvOpen ''/t/index.json'') (emit (EvOpen ''/t/oci-layout'') world0)"
    let ?v2 = "emit (EvOpen ''/t/blobs/sha256/m'') ?v1"
    have hyp: "TempDir (demo_host short_oci_fs) = Inr ''/t'' \<and>
        Untar (demo_host short_oci_fs) ''tar'' ''/t'' = Inr short_oci_fs \<and>
        safePath short_oci_fs ''/t'' ''oci-layout'' = Inr ''/t/oci-layout'' \<and>
        os_Open short_oci_fs ''/t/oci-layout'' = Inr ''{}'' \<and>
        (''myimage'' = []) = (([] :: (string \<times> string) list) \<noteq> []) \<and>
        os_Open short_oci_fs (Join short_oci_fs [''/t'', ''index.json'']) = Inr ''{}'' \<and>
        decodeIndex (cd short_exporter) ''{}'' = Inr oci_index \<and>
        ociManifests short_exporter short_oci_fs ''/t'' ''myimage'' [] (Manifests oci_index) []
          (emit (EvOpen (Join short_oci_fs [''/t'', ''index.json''])) (emit (EvOpen ''/t/oci-layout'') world0)) =
          (Inr ([] @ oci_item # []), ?v2) \<and>
        loadManifests short_exporter short_oci_fs ''/t'' True [] [] ?v2 = (None, [], ?v2)"
      by (simp add: demo_host_def safePath_def short_oci_fs_def short_exporter_def oci_index_def
          oci_manifest_def oci_item_def MediaTypeImageManifest_def blobPath_def ociTag_def
          demo_defs call_defs ref_String_def)
    from O [where ds = "[]" and w = ?v2 and pre = "[]" and ms = "[]" and v = world0
        and h = "demo_host short_oci_fs" and inTar = "''tar''" and n = 1 and name = "''myimage''"
        and refs = "[]", THEN conjunct2, THEN conjunct2, THEN conjunct2, rule_format, OF hyp]
    show ?thesis by (simp add: oci_item_def demo_image_def)
  qed
  from a b c d show ?thesis by blast
qed

lemmas legacy_defs = legacyConfig_def legacyBase_def legacyCreate_def legacyAssemble_def
  legacyTags_def legacyLoad_def NewRootFS_def nil_File_Close_def

subsection \<open>Files opened outside the path guard\<close>

text \<open>
  Claim C1 asks that every file the loader opens is first resolved by \<open>safePath\<close>.
  \<open>loadHelper\<close>, \<open>legacyLoad\<close> and \<open>Load\<close> do so; \<open>ociLoad\<close> opens
  \<open>index.json\<close> and the manifest blobs under a plain \<open>filepath.Join\<close>. On the
  archive \<open>planted_fs\<close> the guard refuses \<open>index.json\<close>, and \<open>ociLoad\<close> opens
  and reads the file all the same and ends without an error.
\<close>

theorem C1_index_opened_without_guard:
  "safePath planted_fs ''/t'' ''index.json'' = Inl (Other ''path escapes the root'') \<and>
   ociLoad plain_exporter planted_fs ''/t'' ''img'' [] True world0 =
     (None, world0\<lparr>trace := [EvOpen ''/t/index.json'']\<rparr>)"
  by (simp add: planted_fs_def plain_exporter_def ociLoad_def demo_defs run_defs)

subsection \<open>The layer handle of a legacy image\<close>

text \<open>
  Claim C2 asks that every acquired layer handle is released exactly once on every exit.
  \<open>legacyLoadImage\<close> releases its handle only after \<open>l.is.Create\<close> has succeeded.
  On the archive \<open>legacy_fs\<close>, with a json whose history cannot be built, the layer
  of \<open>X\<close> is registered, the import fails, and the trace ends without any
  \<open>EvLsRelease\<close>: the handle is leaked.
\<close>

theorem C2_legacy_layer_leaked:
  "legacyLoad 2 bad_history_exporter legacy_fs ''/t'' True world0 =
     Some (Some (Other ''cannot parse created''),
       \<lparr>ext = dstore0\<lparr>d_layers := [(''a'', ''a'')]\<rparr>,
        trace = [EvOpen ''/t/X/json'', EvOpen ''/t/X/layer.tar'',
                 EvLsRegister \<lparr>s_data = ''a'', s_progress = Some (1, ''X'')\<rparr> []
                   (Some \<lparr>L_ChainID = ''a'', L_DiffID = ''a''\<rparr>)]\<rparr>)"
  by (simp add: numeral_2_eq_2 bad_history_exporter_def legacy_fs_def legacy_defs demo_defs
      run_defs)

subsection \<open>Failures of opening the marker and the manifest file\<close>

text \<open>
  Claim C3 asks that a failure to read the \<open>oci-layout\<close> marker or the manifest
  file, other than the file being absent, aborts the import and reaches the caller.
  When the manifest file cannot be opened (\<open>denied_fs\<close>), \<open>Load\<close> returns the
  result of \<open>Close\<close> on the nil handle, \<open>os.ErrInvalid\<close>, not the failure. When
  the marker cannot be opened (\<open>marker_denied_fs\<close>), the failure is taken for an
  absent marker and the import goes on to the manifest file and succeeds.
\<close>

theorem C3_open_failure_not_surfaced:
  "Load 1 plain_exporter (demo_host denied_fs) ''tar'' [] [] world0 =
     Some (Some ErrInvalid,
       world0\<lparr>trace := [EvOpen ''/t/oci-layout'', EvOpen ''/t/manifest.json'',
                          EvRemoveAll ''/t'']\<rparr>) \<and>
   Load 1 plain_exporter (demo_host marker_denied_fs) ''tar'' ''img'' [] world0 =
     Some (None,
       world0\<lparr>trace := [EvOpen ''/t/oci-layout'', EvOpen ''/t/manifest.json'',
                          EvRemoveAll ''/t'']\<rparr>)"
  by (simp add: Load_def dispatch_def demo_host_def denied_fs_def marker_denied_fs_def
      plain_exporter_def legacy_defs demo_defs run_defs)

subsection \<open>Errors of the reference store\<close>

text \<open>
  Claim C4 asks that every error aborts the import, in particular an error of
  \<open>AddTag\<close>. \<open>setLoadedTag\<close> returns that error, and both of its callers drop it.
  With a reference store that refuses every tag, \<open>loadHelper\<close> goes on to the next
  tag, reports both as loaded and returns no error.
\<close>

theorem C4_AddTag_error_dropped:
  "loadHelper failing_tag_exporter (demo_fs [(''/t/cfg'', '''')] []) ''/t'' [two_tags] True world0 =
     (None,
      \<lparr>ext = dstore0\<lparr>d_images := [''id-'']\<rparr>,
       trace = [EvOpen ''/t/cfg'', EvIsCreate [] (Some ''id-''),
         EvRsGet \<lparr>ref_Name = ''sha256'', ref_Tag = Some ''a''\<rparr>,
         EvRsAddTag \<lparr>ref_Name = ''sha256'', ref_Tag = Some ''a''\<rparr> ''id-'',
         EvWrite ''sha256:a(id-) has been loaded.'',
         EvRsGet \<lparr>ref_Name = ''sha256'', ref_Tag = Some ''b''\<rparr>,
         EvRsAddTag \<lparr>ref_Name = ''sha256'', ref_Tag = Some ''b''\<rparr> ''id-'',
         EvWrite ''sha256:b(id-) has been loaded.'']\<rparr>)"
  by (simp add: failing_tag_exporter_def plain_exporter_def two_tags_def demo_defs run_defs)

subsection \<open>The legacy repositories file\<close>

text \<open>
  Claim C9 asks that a legacy import without a repositories file succeeds. For an
  absent file the code returns \<open>repositoriesFile.Close()\<close> on the nil handle, which is
  \<open>os.ErrInvalid\<close>: on the archive \<open>legacy_fs\<close> the image \<open>X\<close> is loaded and
  the import then fails.
\<close>

theorem C9_missing_repositories_is_an_error:
  "legacyLoad 2 plain_exporter legacy_fs ''/t'' True world0 =
     Some (Some ErrInvalid,
       \<lparr>ext = dstore0\<lparr>d_layers := [(''a'', ''a'')], d_images := [''id-a'']\<rparr>,
        trace = [EvOpen ''/t/X/json'', EvOpen ''/t/X/layer.tar'',
                 EvLsRegister \<lparr>s_data = ''a'', s_progress = Some (1, ''X'')\<rparr> []
                   (Some \<lparr>L_ChainID = ''a'', L_DiffID = ''a''\<rparr>),
                 EvIsCreate ''a'' (Some ''id-a''),
                 EvLsRelease \<lparr>L_ChainID = ''a'', L_DiffID = ''a''\<rparr>,
                 EvMapStore ''X'' ''id-a'', EvOpen ''/t/repositories'']\<rparr>)"
  by (simp add: numeral_2_eq_2 plain_exporter_def legacy_fs_def legacy_defs demo_defs run_defs)

text \<open>
  The second half of the claim holds: an old id of the repositories file that is not in
  the load map ends the import with the invalid-target error.
\<close>

lemma legacyRepoTags_absent:
  "loadedMap oldID = None \<Longrightarrow>
   legacyRepoTags l loadedMap name ((tag, oldID) # rest) w = (Some (InvalidTargetID oldID), w)"
  by simp

subsection \<open>Traces of the structured path\<close>

lemma acquired_append [simp]: "acquired (xs @ ys) = acquired xs @ acquired ys"
  by (induction xs rule: acquired.induct) simp_all

lemma released_append [simp]: "released (xs @ ys) = released xs @ released ys"
  by (induction xs rule: released.induct) simp_all

lemma creates_append [simp]: "creates (xs @ ys) = creates xs @ creates ys"
  by (induction xs rule: creates.induct) simp_all

lemma getOrLoad_trace:
  assumes "getOrLoad l fs layerPath rootFS diffID po w = (res, w1)"
  shows "acquired (trace w1) = acquired (trace w) @ (case res of Inl e \<Rightarrow> [] | Inr h \<Rightarrow> [h])"
    and "creates (trace w1) = creates (trace w)"
    and "released (trace w1) = released (trace w)"
  using assms
  by (auto simp: getOrLoad_def loadLayer_def call_defs split: prod.splits sum.splits if_splits)

lemma loadLayers_trace:
  assumes "loadLayers l fs tmpDir layers po i diffIDs rootFS ds w = (r, rootFS', ds', w')"
  shows "\<exists>hs. ds' = rev hs @ ds \<and> acquired (trace w') = acquired (trace w) @ hs \<and>
           creates (trace w') = creates (trace w) \<and> released (trace w') = released (trace w) \<and>
           length hs \<le> length diffIDs \<and>
           (r = None \<longrightarrow> map L_DiffID hs = diffIDs) \<and>
           (\<forall>k<length hs. L_DiffID (hs ! k) \<noteq> diffIDs ! k \<longrightarrow>
              r = Some (InvalidDiffID (i + k) (diffIDs ! k) (L_DiffID (hs ! k))))"
  using assms
proof (induction diffIDs arbitrary: i rootFS ds w)
  case Nil
  then show ?case by simp
next
  case (Cons diffID rest)
  show ?case
  proof (cases "length layers \<le> i")
    case True
    with Cons.prems show ?thesis by auto
  next
    case inrange: False
    show ?thesis
    proof (cases "safePath fs tmpDir (layers ! i)")
      case (Inl e)
      with Cons.prems inrange show ?thesis by auto
    next
      case (Inr layerPath)
      obtain res w1 where g: "getOrLoad l fs layerPath rootFS diffID po w = (res, w1)"
        by (cases "getOrLoad l fs layerPath rootFS diffID po w") auto
      note tr = getOrLoad_trace [OF g]
      show ?thesis
      proof (cases res)
        case (Inl e)
        with Cons.prems inrange Inr g tr show ?thesis by auto
      next
        case h: (Inr newLayer)
        show ?thesis
        proof (cases "diffID = L_DiffID newLayer")
          case False
          with Cons.prems inrange Inr g h tr show ?thesis
            by (intro exI [of _ "[newLayer]"]) auto
        next
          case True
          with Cons.prems inrange Inr g h
          have rec: "loadLayers l fs tmpDir layers po (Suc i) rest (Append rootFS diffID)
                       (newLayer # ds) w1 = (r, rootFS', ds', w')"
            by simp
          from Cons.IH [OF rec] obtain hs where
            hs: "ds' = rev hs @ newLayer # ds"
                "acquired (trace w') = acquired (trace w1) @ hs"
                "creates (trace w') = creates (trace w1)"
                "released (trace w') = released (trace w1)"
                "length hs \<le> length rest"
                "r = None \<longrightarrow> map L_DiffID hs = rest"
                "\<forall>k<length hs. L_DiffID (hs ! k) \<noteq> rest ! k \<longrightarrow>
                    r = Some (InvalidDiffID (Suc i + k) (rest ! k) (L_DiffID (hs ! k)))"
            by blast
          have "\<forall>k<length (newLayer # hs). L_DiffID ((newLayer # hs) ! k) \<noteq> (diffID # rest) ! k \<longrightarrow>
                  r = Some (InvalidDiffID (i + k) ((diffID # rest) ! k) (L_DiffID ((newLayer # hs) ! k)))"
          proof (intro allI impI)
            fix k assume k: "k < length (newLayer # hs)"
              and ne: "L_DiffID ((newLayer # hs) ! k) \<noteq> (diffID # rest) ! k"
            show "r = Some (InvalidDiffID (i + k) ((diffID # rest) ! k) (L_DiffID ((newLayer # hs) ! k)))"
            proof (cases k)
              case 0
              with ne True show ?thesis by simp
            next
              case (Suc j)
              with k ne hs(7) show ?thesis by simp
            qed
          qed
          with hs tr h True show ?thesis
            by (intro exI [of _ "newLayer # hs"]) simp
        qed
      qed
    qed
  qed
qed


lemma setLoadedTag_trace:
  assumes "setLoadedTag l ref imgID w = (r, w')"
  shows "acquired (trace w') = acquired (trace w)"
    and "creates (trace w') = creates (trace w)"
    and "released (trace w') = released (trace w)"
  using assms
  by (auto simp: setLoadedTag_def call_defs Let_def split: prod.splits sum.splits if_splits)

lemma loadTags_trace:
  assumes "loadTags l imgID tags w = (r, w')"
  shows "acquired (trace w') = acquired (trace w) \<and> creates (trace w') = creates (trace w) \<and>
         released (trace w') = released (trace w)"
  using assms
proof (induction tags arbitrary: w)
  case Nil
  then show ?case by simp
next
  case (Cons repoTag rest)
  show ?case
  proof (cases "ParseNamed (rf l) repoTag")
    case (Inl e)
    with Cons.prems show ?thesis by auto
  next
    case (Inr named)
    show ?thesis
    proof (cases "ref_Tag named = None")
      case True
      with Cons.prems Inr show ?thesis by auto
    next
      case False
      obtain r1 w1 where s: "setLoadedTag l named imgID w = (r1, w1)"
        by (cases "setLoadedTag l named imgID w") auto
      with Cons.prems Inr False
      have "loadTags l imgID rest (emit (EvWrite (loaded_msg named imgID)) w1) = (r, w')"
        by simp
      from Cons.IH [OF this] setLoadedTag_trace [OF s] show ?thesis
        by (simp add: emit_def)
    qed
  qed
qed

subsection \<open>Layer handles of the structured path\<close>

lemma loadItem_handles:
  assumes "loadItem l fs tmpDir po m ds w = (r, ds', w')"
  shows "\<exists>hs. ds' = rev hs @ ds \<and> acquired (trace w') = acquired (trace w) @ hs \<and>
           released (trace w') = released (trace w)"
proof (cases "safePath fs tmpDir (Config m)")
  case (Inl e)
  with assms show ?thesis by (simp add: loadItem_def)
next
  case (Inr configPath)
  let ?w0 = "emit (EvOpen configPath) w"
  have w0: "acquired (trace ?w0) = acquired (trace w)" "released (trace ?w0) = released (trace w)"
    by (simp_all add: emit_def)
  show ?thesis
  proof (cases "os_Open fs configPath")
    case (Inl e)
    with assms Inr w0 show ?thesis by (auto simp: loadItem_def open_file_def)
  next
    case cfg: (Inr config)
    show ?thesis
    proof (cases "NewFromJSON (cd l) config")
      case (Inl e)
      with assms Inr cfg w0 show ?thesis by (auto simp: loadItem_def open_file_def)
    next
      case img: (Inr img)
      let ?ds = "DiffIDs (img_RootFS img)"
      show ?thesis
      proof (cases "length (Layers m) = length ?ds")
        case False
        with assms Inr cfg img w0 show ?thesis by (auto simp: loadItem_def open_file_def)
      next
        case True
        obtain r2 rootFS2 ds2 w2 where
          ll: "loadLayers l fs tmpDir (Layers m) po 0 ?ds ((img_RootFS img)\<lparr>DiffIDs := []\<rparr>) ds ?w0 =
                 (r2, rootFS2, ds2, w2)"
          by (cases "loadLayers l fs tmpDir (Layers m) po 0 ?ds ((img_RootFS img)\<lparr>DiffIDs := []\<rparr>) ds ?w0")
            auto
        from loadLayers_trace [OF ll] w0 obtain hs where
          hs: "ds2 = rev hs @ ds" "acquired (trace w2) = acquired (trace w) @ hs"
              "released (trace w2) = released (trace w)"
          by auto
        have tail: "ds' = ds2 \<and> acquired (trace w') = acquired (trace w2) \<and>
                    released (trace w') = released (trace w2)"
        proof (cases r2)
          case (Some e)
          with assms Inr cfg img True ll show ?thesis by (simp add: loadItem_def open_file_def)
        next
          case None
          obtain rc w3 where c: "is_Create l config w2 = (rc, w3)"
            by (cases "is_Create l config w2") auto
          then have c3: "acquired (trace w3) = acquired (trace w2)"
                        "released (trace w3) = released (trace w2)"
            by (auto simp: call_defs split: prod.splits)
          show ?thesis
          proof (cases rc)
            case (Inl e)
            with assms Inr cfg img True ll None c c3 show ?thesis
              by (simp add: loadItem_def open_file_def)
          next
            case (Inr imgID)
            obtain rt w4 where t: "loadTags l imgID (RepoTags m) w3 = (rt, w4)"
              by (cases "loadTags l imgID (RepoTags m) w3") auto
            with assms \<open>safePath fs tmpDir (Config m) = Inr configPath\<close> cfg img True ll None c Inr
            have "ds' = ds2" "w' = w4" by (simp_all add: loadItem_def open_file_def)
            with loadTags_trace [OF t] c3 show ?thesis by simp
          qed
        qed
        with hs show ?thesis by auto
      qed
    qed
  qed
qed

lemma loadManifests_handles:
  assumes "loadManifests l fs tmpDir po ms ds w = (r, ds', w')"
  shows "\<exists>hs. ds' = rev hs @ ds \<and> acquired (trace w') = acquired (trace w) @ hs \<and>
           released (trace w') = released (trace w)"
  using assms
proof (induction ms arbitrary: ds w)
  case Nil
  then show ?case by simp
next
  case (Cons m ms)
  obtain r1 ds1 w1 where it: "loadItem l fs tmpDir po m ds w = (r1, ds1, w1)"
    by (cases "loadItem l fs tmpDir po m ds w") auto
  from loadItem_handles [OF it] obtain hs1 where
    h1: "ds1 = rev hs1 @ ds" "acquired (trace w1) = acquired (trace w) @ hs1"
        "released (trace w1) = released (trace w)" by blast
  show ?case
  proof (cases r1)
    case (Some e)
    with Cons.prems it have "ds' = ds1" "w' = w1" by simp_all
    with h1 show ?thesis by blast
  next
    case None
    with Cons.prems it have "loadManifests l fs tmpDir po ms ds1 w1 = (r, ds', w')" by simp
    from Cons.IH [OF this] obtain hs2 where
      h2: "ds' = rev hs2 @ ds1" "acquired (trace w') = acquired (trace w1) @ hs2"
          "released (trace w') = released (trace w1)" by blast
    from h1 h2 have "ds' = rev (hs1 @ hs2) @ ds \<and>
        acquired (trace w') = acquired (trace w) @ (hs1 @ hs2) \<and>
        released (trace w') = released (trace w)" by simp
    then show ?thesis by blast
  qed
qed

lemma runDeferred_trace:
  "acquired (trace (runDeferred l ds w)) = acquired (trace w) \<and>
   released (trace (runDeferred l ds w)) = released (trace w) @ ds"
  by (induction ds arbitrary: w) (auto simp: call_defs split: prod.splits)

text \<open>
  \<open>loadHelper\<close> releases, on every return, exactly the handles it was handed, each once,
  the latest first.
\<close>

lemma loadHelper_releases_all:
  assumes "loadHelper l fs tmpDir ms po w = (r, w')"
  shows "\<exists>hs. acquired (trace w') = acquired (trace w) @ hs \<and>
           released (trace w') = released (trace w) @ rev hs"
proof -
  obtain r1 ds1 w1 where lm: "loadManifests l fs tmpDir po ms [] w = (r1, ds1, w1)"
    by (cases "loadManifests l fs tmpDir po ms [] w") auto
  from loadManifests_handles [OF lm] obtain hs where
    hs: "ds1 = rev hs" "acquired (trace w1) = acquired (trace w) @ hs"
        "released (trace w1) = released (trace w)" by auto
  from assms lm have "w' = runDeferred l ds1 w1" by (simp add: loadHelper_def)
  with runDeferred_trace [of l ds1 w1] hs show ?thesis by auto
qed

subsection \<open>A layer that is not the declared one\<close>

text \<open>
  A manifest item at which a handle with another DiffID than the declared one is handed
  out ends with the invalid-diffID error, before \<open>is.Create\<close>, and ends the loop over
  the items.
\<close>

lemma loadItem_mismatch:
  assumes cfg: "safePath fs tmpDir (Config m) = Inr configPath"
               "os_Open fs configPath = Inr config"
               "NewFromJSON (cd l) config = Inr img"
      and run: "loadItem l fs tmpDir po m ds w = (r, ds', w')"
      and hs: "acquired (trace w') = acquired (trace w) @ hs"
      and k: "k < length hs"
      and ne: "L_DiffID (hs ! k) \<noteq> DiffIDs (img_RootFS img) ! k"
  shows "r = Some (InvalidDiffID k (DiffIDs (img_RootFS img) ! k) (L_DiffID (hs ! k))) \<and>
         creates (trace w') = creates (trace w) \<and>
         loadManifests l fs tmpDir po (m # ms) ds w = (r, ds', w')"
proof -
  let ?ds = "DiffIDs (img_RootFS img)"
  have len: "length (Layers m) = length ?ds"
  proof (rule ccontr)
    assume "length (Layers m) \<noteq> length ?ds"
    with cfg run have "w' = emit (EvOpen configPath) w"
      by (simp add: loadItem_def open_file_def)
    with hs k show False by (simp add: emit_def)
  qed
  obtain r2 rootFS2 ds2 w2 where
    ll: "loadLayers l fs tmpDir (Layers m) po 0 ?ds ((img_RootFS img)\<lparr>DiffIDs := []\<rparr>) ds
           (emit (EvOpen configPath) w) = (r2, rootFS2, ds2, w2)"
    by (cases "loadLayers l fs tmpDir (Layers m) po 0 ?ds ((img_RootFS img)\<lparr>DiffIDs := []\<rparr>) ds
           (emit (EvOpen configPath) w)") auto
  from loadLayers_trace [OF ll] obtain hs2 where
    hs2: "acquired (trace w2) = acquired (trace w) @ hs2"
         "creates (trace w2) = creates (trace w)"
         "r2 = None \<longrightarrow> map L_DiffID hs2 = ?ds"
         "\<forall>j<length hs2. L_DiffID (hs2 ! j) \<noteq> ?ds ! j \<longrightarrow>
            r2 = Some (InvalidDiffID (0 + j) (?ds ! j) (L_DiffID (hs2 ! j)))"
    by (auto simp: emit_def)
  show ?thesis
  proof (cases r2)
    case (Some e)
    with cfg len run ll have res: "r = Some e" "ds' = ds2" "w' = w2"
      by (simp_all add: loadItem_def open_file_def)
    with hs hs2(1) have "hs = hs2" by simp
    with hs2(4) k ne Some res hs2(2) run show ?thesis by auto
  next
    case None
    obtain rc w3 where c: "is_Create l config w2 = (rc, w3)"
      by (cases "is_Create l config w2") auto
    then have a3: "acquired (trace w3) = acquired (trace w2)"
      by (auto simp: call_defs split: prod.splits)
    have "acquired (trace w') = acquired (trace w2)"
    proof (cases rc)
      case (Inl e)
      with cfg len run ll None c have "w' = w3"
        by (simp add: loadItem_def open_file_def)
      with a3 show ?thesis by simp
    next
      case (Inr imgID)
      obtain rt w4 where t: "loadTags l imgID (RepoTags m) w3 = (rt, w4)"
        by (cases "loadTags l imgID (RepoTags m) w3") auto
      with cfg len run ll None c Inr have "w' = w4"
        by (simp add: loadItem_def open_file_def)
      with loadTags_trace [OF t] a3 show ?thesis by simp
    qed
    with hs hs2(1) have "hs = hs2" by simp
    with hs2(3) None have "map L_DiffID hs = ?ds" by simp
    then have "L_DiffID (hs ! k) = ?ds ! k"
      using k by (metis nth_map)
    with ne show ?thesis by simp
  qed
qed

lemma runDeferred_creates:
  "creates (trace (runDeferred l ds w)) = creates (trace w)"
  by (induction ds arbitrary: w) (auto simp: call_defs split: prod.splits)

text \<open>
  Claim C5. Let a manifest item of the structured or OCI path have a readable, parsable
  configuration, and let \<open>hs\<close> be the layer handles handed out while the item is
  processed. If the DiffID of the handle at some position \<open>k\<close> differs from the
  DiffID the configuration declares at \<open>k\<close>, then the item ends with the invalid-diffID
  error for layer \<open>k\<close> (the spec's ManifestIntegrityError), \<open>is.Create\<close> is not
  called for the item, and the import stops there with that error: after any items
  \<open>pre\<close> that loaded well, \<open>loadHelper\<close> returns the error, with no
  \<open>is.Create\<close> call since the item began (the deferred releases included), and so
  does \<open>Load\<close>, on the structured path and on the OCI path.
\<close>

theorem C5_diffID_mismatch_is_fatal:
  assumes cfg: "safePath fs tmpDir (Config m) = Inr configPath"
               "os_Open fs configPath = Inr config"
               "NewFromJSON (cd l) config = Inr img"
      and run: "loadItem l fs tmpDir po m ds w = (r, ds', w')"
      and hs: "acquired (trace w') = acquired (trace w) @ hs"
      and k: "k < length hs"
      and ne: "L_DiffID (hs ! k) \<noteq> DiffIDs (img_RootFS img) ! k"
  shows "r = Some (InvalidDiffID k (DiffIDs (img_RootFS img) ! k) (L_DiffID (hs ! k))) \<and>
         creates (trace w') = creates (trace w) \<and>
         loadManifests l fs tmpDir po (m # ms) ds w = (r, ds', w') \<and>
         creates (trace (runDeferred l ds' w')) = creates (trace w) \<and>
         (loadManifests l fs tmpDir po pre [] w0 = (None, ds, w) \<longrightarrow>
            loadHelper l fs tmpDir (pre @ m # ms) po w0 = (r, runDeferred l ds' w')) \<and>
         (po \<and> TempDir h = Inr tmpDir \<and> Untar h inTar tmpDir = Inr fs \<and>
          safePath fs tmpDir ''oci-layout'' = Inr lp \<and> os_Open fs lp = Inl e0 \<and>
          safePath fs tmpDir (manifestFileName (nm l)) = Inr mp \<and> os_Open fs mp = Inr mf \<and>
          decodeManifest (cd l) mf = Inr (pre @ m # ms) \<and>
          loadManifests l fs tmpDir True pre [] (emit (EvOpen mp) (emit (EvOpen lp) v)) =
            (None, ds, w) \<longrightarrow>
            Load n l h inTar name refs v =
              Some (r, emit (EvRemoveAll tmpDir) (runDeferred l ds' w'))) \<and>
         (po \<and> TempDir h = Inr tmpDir \<and> Untar h inTar tmpDir = Inr fs \<and>
          safePath fs tmpDir ''oci-layout'' = Inr lp \<and> os_Open fs lp = Inr lf \<and>
          (name = []) = (refs \<noteq> []) \<and>
          os_Open fs (Join fs [tmpDir, ''index.json'']) = Inr ij \<and>
          decodeIndex (cd l) ij = Inr index \<and>
          ociManifests l fs tmpDir name refs (Manifests index) []
            (emit (EvOpen (Join fs [tmpDir, ''index.json''])) (emit (EvOpen lp) v)) =
            (Inr (pre @ m # ms), v2) \<and>
          loadManifests l fs tmpDir True pre [] v2 = (None, ds, w) \<longrightarrow>
            Load n l h inTar name refs v =
              Some (r, emit (EvRemoveAll tmpDir) (runDeferred l ds' w')))"
proof -
  let ?E = "InvalidDiffID k (DiffIDs (img_RootFS img) ! k) (L_DiffID (hs ! k))"
  from loadItem_mismatch [OF cfg run hs k ne, of ms]
  have r: "r = Some ?E" and cr: "creates (trace w') = creates (trace w)"
    and lm: "loadManifests l fs tmpDir po (m # ms) ds w = (r, ds', w')"
    by simp_all
  note item = run [unfolded r]
  have cd: "creates (trace (runDeferred l ds' w')) = creates (trace w)"
    using cr by (simp add: runDeferred_creates)
  have b: "loadManifests l fs tmpDir po pre [] w0 = (None, ds, w) \<longrightarrow>
            loadHelper l fs tmpDir (pre @ m # ms) po w0 = (r, runDeferred l ds' w')"
    unfolding r using loadHelper_stops [OF _ item] by blast
  have c: "po \<and> TempDir h = Inr tmpDir \<and> Untar h inTar tmpDir = Inr fs \<and>
          safePath fs tmpDir ''oci-layout'' = Inr lp \<and> os_Open fs lp = Inl e0 \<and>
          safePath fs tmpDir (manifestFileName (nm l)) = Inr mp \<and> os_Open fs mp = Inr mf \<and>
          decodeManifest (cd l) mf = Inr (pre @ m # ms) \<and>
          loadManifests l fs tmpDir True pre [] (emit (EvOpen mp) (emit (EvOpen lp) v)) =
            (None, ds, w) \<longrightarrow>
            Load n l h inTar name refs v =
              Some (r, emit (EvRemoveAll tmpDir) (runDeferred l ds' w'))"
  proof (intro impI, elim conjE)
    assume po and h: "TempDir h = Inr tmpDir" "Untar h inTar tmpDir = Inr fs"
      "safePath fs tmpDir ''oci-layout'' = Inr lp" "os_Open fs lp = Inl e0"
      "safePath fs tmpDir (manifestFileName (nm l)) = Inr mp" "os_Open fs mp = Inr mf"
      "decodeManifest (cd l) mf = Inr (pre @ m # ms)"
      "loadManifests l fs tmpDir True pre [] (emit (EvOpen mp) (emit (EvOpen lp) v)) = (None, ds, w)"
    from item \<open>po\<close> have "loadItem l fs tmpDir True m ds w = (Some ?E, ds', w')" by simp
    from Load_structured_stops [OF h this] r
    show "Load n l h inTar name refs v = Some (r, emit (EvRemoveAll tmpDir) (runDeferred l ds' w'))"
      by simp
  qed
  have d: "po \<and> TempDir h = Inr tmpDir \<and> Untar h inTar tmpDir = Inr fs \<and>
          safePath fs tmpDir ''oci-layout'' = Inr lp \<and> os_Open fs lp = Inr lf \<and>
          (name = []) = (refs \<noteq> []) \<and>
          os_Open fs (Join fs [tmpDir, ''index.json'']) = Inr ij \<and>
          decodeIndex (cd l) ij = Inr index \<and>
          ociManifests l fs tmpDir name refs (Manifests index) []
            (emit (EvOpen (Join fs [tmpDir, ''index.json''])) (emit (EvOpen lp) v)) =
            (Inr (pre @ m # ms), v2) \<and>
          loadManifests l fs tmpDir True pre [] v2 = (None, ds, w) \<longrightarrow>
            Load n l h inTar name refs v =
              Some (r, emit (EvRemoveAll tmpDir) (runDeferred l ds' w'))"
  proof (intro impI, elim conjE)
    assume po and h: "TempDir h = Inr tmpDir" "Untar h inTar tmpDir = Inr fs"
      "safePath fs tmpDir ''oci-layout'' = Inr lp" "os_Open fs lp = Inr lf"
      "(name = []) = (refs \<noteq> [])"
      "os_Open fs (Join fs [tmpDir, ''index.json'']) = Inr ij"
      "decodeIndex (cd l) ij = Inr index"
      "ociManifests l fs tmpDir name refs (Manifests index) []
            (emit (EvOpen (Join fs [tmpDir, ''index.json''])) (emit (EvOpen lp) v)) =
            (Inr (pre @ m # ms), v2)"
      "loadManifests l fs tmpDir True pre [] v2 = (None, ds, w)"
    from item \<open>po\<close> have "loadItem l fs tmpDir True m ds w = (Some ?E, ds', w')" by simp
    from Load_oci_stops [OF h this] r
    show "Load n l h inTar name refs v = Some (r, emit (EvRemoveAll tmpDir) (runDeferred l ds' w'))"
      by simp
  qed
  from r cr lm cd b c d show ?thesis by blast
qed


lemma lying_run:
  assumes "ext v = dstore0"
  shows "loadItem lying_exporter lying_batch_fs ''/t'' True lying_item [] v =
     (Some (InvalidDiffID 1 ''b'' ''x''),
      [\<lparr>L_ChainID = ''ax'', L_DiffID = ''x''\<rparr>, \<lparr>L_ChainID = ''a'', L_DiffID = ''a''\<rparr>],
      v\<lparr>ext := dstore0\<lparr>d_layers := [(''ax'', ''x''), (''a'', ''a'')]\<rparr>,
        trace := trace v @
          [EvOpen ''/t/cfg'', EvLsGet ''a'' None, EvOpen ''/t/l1'',
           EvLsRegister \<lparr>s_data = ''a'', s_progress = Some (1, ''a'')\<rparr> []
             (Some \<lparr>L_ChainID = ''a'', L_DiffID = ''a''\<rparr>),
           EvLsGet ''ab'' None, EvOpen ''/t/l2'',
           EvLsRegister \<lparr>s_data = ''x'', s_progress = Some (1, ''b'')\<rparr> ''a''
             (Some \<lparr>L_ChainID = ''ax'', L_DiffID = ''x''\<rparr>)]\<rparr>)"
  using assms
  by (simp add: lying_exporter_def lying_batch_fs_def lying_item_def demo_defs run_defs)

lemma lying_cfg:
  "safePath lying_batch_fs ''/t'' (Config lying_item) = Inr ''/t/cfg''"
  "os_Open lying_batch_fs ''/t/cfg'' = Inr ''ab''"
  "NewFromJSON (cd lying_exporter) ''ab'' = Inr (demo_image ''ab'')"
  by (simp_all add: safePath_def lying_batch_fs_def lying_item_def lying_exporter_def demo_defs)

lemma lying_oci_cfg:
  "safePath lying_oci_fs ''/t'' (Config oci_item) = Inr ''/t/blobs/sha256/c''"
  "os_Open lying_oci_fs ''/t/blobs/sha256/c'' = Inr ''ab''"
  by (simp_all add: safePath_def lying_oci_fs_def oci_item_def demo_defs)

lemma lying_oci_run:
  assumes "ext v = dstore0"
  shows "loadItem lying_exporter lying_oci_fs ''/t'' True oci_item [] v =
     (Some (InvalidDiffID 1 ''b'' ''q''),
      [\<lparr>L_ChainID = ''aq'', L_DiffID = ''q''\<rparr>, \<lparr>L_ChainID = ''a'', L_DiffID = ''a''\<rparr>],
      v\<lparr>ext := dstore0\<lparr>d_layers := [(''aq'', ''q''), (''a'', ''a'')]\<rparr>,
        trace := trace v @
          [EvOpen ''/t/blobs/sha256/c'', EvLsGet ''a'' None, EvOpen ''/t/blobs/sha256/x'',
           EvLsRegister \<lparr>s_data = ''a'', s_progress = Some (1, ''a'')\<rparr> []
             (Some \<lparr>L_ChainID = ''a'', L_DiffID = ''a''\<rparr>),
           EvLsGet ''ab'' None, EvOpen ''/t/blobs/sha256/y'',
           EvLsRegister \<lparr>s_data = ''q'', s_progress = Some (1, ''b'')\<rparr> ''a''
             (Some \<lparr>L_ChainID = ''aq'', L_DiffID = ''q''\<rparr>)]\<rparr>)"
  using assms
  by (simp add: lying_exporter_def lying_oci_fs_def oci_item_def demo_defs run_defs)

theorem C5_diffID_mismatch_is_fatal_witness:
  "loadManifests plain_exporter lying_fs ''/t'' True [lying_item] [] world0 =
     (Some (InvalidDiffID 1 ''b'' ''x''),
      [\<lparr>L_ChainID = ''ax'', L_DiffID = ''x''\<rparr>, \<lparr>L_ChainID = ''a'', L_DiffID = ''a''\<rparr>],
      \<lparr>ext = dstore0\<lparr>d_layers := [(''ax'', ''x''), (''a'', ''a'')]\<rparr>,
       trace =
         [EvOpen ''/t/cfg'', EvLsGet ''a'' None, EvOpen ''/t/l1'',
          EvLsRegister \<lparr>s_data = ''a'', s_progress = Some (1, ''a'')\<rparr> []
            (Some \<lparr>L_ChainID = ''a'', L_DiffID = ''a''\<rparr>),
          EvLsGet ''ab'' None, EvOpen ''/t/l2'',
          EvLsRegister \<lparr>s_data = ''x'', s_progress = Some (1, ''b'')\<rparr> ''a''
            (Some \<lparr>L_ChainID = ''ax'', L_DiffID = ''x''\<rparr>)]\<rparr>) \<and>
   fst (loadHelper lying_exporter lying_batch_fs ''/t'' [good_item, lying_item] True world0) =
     Some (InvalidDiffID 1 ''b'' ''x'') \<and>
   creates (trace (snd (loadHelper lying_exporter lying_batch_fs ''/t'' [good_item, lying_item]
     True world0))) = [''a''] \<and>
   map_option fst (Load 1 lying_exporter (demo_host lying_batch_fs) ''tar'' [] [] world0) =
     Some (Some (InvalidDiffID 1 ''b'' ''x'')) \<and>
   map_option fst (Load 1 lying_exporter (demo_host lying_oci_fs) ''tar'' ''myimage'' [] world0) =
     Some (Some (InvalidDiffID 1 ''b'' ''q''))"
proof -
  let ?a = "\<lparr>L_ChainID = ''a'', L_DiffID = ''a''\<rparr>"
  let ?ax = "\<lparr>L_ChainID = ''ax'', L_DiffID = ''x''\<rparr>"
  let ?aq = "\<lparr>L_ChainID = ''aq'', L_DiffID = ''q''\<rparr>"
  let ?hs = "[?a, ?ax]"
  have k: "1 < length ?hs" by simp
  have ne: "L_DiffID (?hs ! 1) \<noteq> DiffIDs (img_RootFS (demo_image ''ab'')) ! 1"
    by (simp add: demo_image_def)
  have a: "loadManifests plain_exporter lying_fs ''/t'' True [lying_item] [] world0 =
     (Some (InvalidDiffID 1 ''b'' ''x''), rev ?hs,
      \<lparr>ext = dstore0\<lparr>d_layers := [(''ax'', ''x''), (''a'', ''a'')]\<rparr>,
       trace =
         [EvOpen ''/t/cfg'', EvLsGet ''a'' None, EvOpen ''/t/l1'',
          EvLsRegister \<lparr>s_data = ''a'', s_progress = Some (1, ''a'')\<rparr> [] (Some ?a),
          EvLsGet ''ab'' None, EvOpen ''/t/l2'',
          EvLsRegister \<lparr>s_data = ''x'', s_progress = Some (1, ''b'')\<rparr> ''a'' (Some ?ax)]\<rparr>)"
    (is "_ = (_, _, ?w')")
  proof -
    have h1: "safePath lying_fs ''/t'' (Config lying_item) = Inr ''/t/cfg''"
      by (simp add: safePath_def lying_fs_def lying_item_def demo_fs_def demo_Join_def)
    have h2: "os_Open lying_fs ''/t/cfg'' = Inr ''ab''"
      by (simp add: lying_fs_def demo_fs_def)
    have h3: "NewFromJSON (cd plain_exporter) ''ab'' = Inr (demo_image ''ab'')"
      by (simp add: plain_exporter_def demo_exporter_def demo_codec_def)
    have h4: "loadItem plain_exporter lying_fs ''/t'' True lying_item [] world0 =
                (Some (InvalidDiffID 1 ''b'' ''x''), rev ?hs, ?w')"
      by (simp add: plain_exporter_def lying_fs_def lying_item_def demo_defs run_defs)
    have h5: "acquired (trace ?w') = acquired (trace world0) @ ?hs"
      by (simp add: world0_def)
    show ?thesis
      using C5_diffID_mismatch_is_fatal [OF h1 h2 h3 h4 h5 k ne, where ms = "[]", THEN conjunct2, THEN conjunct2,
          THEN conjunct1]
      by simp
  qed
  have bc: "fst (loadHelper lying_exporter lying_batch_fs ''/t'' [good_item, lying_item] True world0) =
       Some (InvalidDiffID 1 ''b'' ''x'') \<and>
     creates (trace (snd (loadHelper lying_exporter lying_batch_fs ''/t'' [good_item, lying_item]
       True world0))) = [''a'']"
  proof -
    let ?t1 = "[EvOpen ''/t/cfg1'', EvLsGet ''a'' None, EvOpen ''/t/l1'',
         EvLsRegister \<lparr>s_data = ''a'', s_progress = Some (1, ''a'')\<rparr> [] (Some ?a),
         EvIsCreate ''a'' (Some ''id-a''),
         EvRsGet \<lparr>ref_Name = ''sample'', ref_Tag = Some ''latest''\<rparr>,
         EvRsAddTag \<lparr>ref_Name = ''sample'', ref_Tag = Some ''latest''\<rparr> ''id-a'',
         EvWrite ''sample:latest(id-a) has been loaded.'']"
    let ?e1 = "\<lparr>d_layers = [(''a'', ''a'')], d_images = [''id-a''], d_parents = [],
         d_tags = [(''sample:latest'', ''id-a'')]\<rparr>"
    let ?w1 = "\<lparr>ext = ?e1, trace = ?t1\<rparr>"
    let ?w2 = "\<lparr>ext = ?e1\<lparr>d_layers := [(''ax'', ''x''), (''a'', ''a'')]\<rparr>,
       trace = ?t1 @
         [EvOpen ''/t/cfg'', EvLsGet ''a'' (Some ?a), EvLsGet ''ab'' None, EvOpen ''/t/l2'',
          EvLsRegister \<lparr>s_data = ''x'', s_progress = Some (1, ''b'')\<rparr> ''a'' (Some ?ax)]\<rparr>"
    have pre: "loadManifests lying_exporter lying_batch_fs ''/t'' True [good_item] [] world0 =
        (None, [?a], ?w1)"
      by (simp add: lying_exporter_def lying_batch_fs_def good_item_def demo_defs run_defs)
    have run: "loadItem lying_exporter lying_batch_fs ''/t'' True lying_item [?a] ?w1 =
        (Some (InvalidDiffID 1 ''b'' ''x''), [?ax, ?a, ?a], ?w2)"
      by (simp add: lying_exporter_def lying_batch_fs_def lying_item_def demo_defs run_defs)
    have hs: "acquired (trace ?w2) = acquired (trace ?w1) @ ?hs" by simp
    note T = C5_diffID_mismatch_is_fatal [OF lying_cfg run hs k ne, where ms = "[]" and pre = "[good_item]"
        and ?w0.0 = world0]
    from T [THEN conjunct2, THEN conjunct2, THEN conjunct2, THEN conjunct2, THEN conjunct1,
        rule_format, OF pre]
      T [THEN conjunct2, THEN conjunct2, THEN conjunct2, THEN conjunct1]
    show ?thesis by simp
  qed
  have d: "map_option fst (Load 1 lying_exporter (demo_host lying_batch_fs) ''tar'' [] [] world0) =
     Some (Some (InvalidDiffID 1 ''b'' ''x''))"
  proof -
    let ?v = "emit (EvOpen ''/t/manifest.json'') (emit (EvOpen ''/t/oci-layout'') world0)"
    have ev: "ext ?v = dstore0" by (simp add: emit_def world0_def)
    note run = lying_run [OF ev]
    have hyp: "True \<and> TempDir (demo_host lying_batch_fs) = Inr ''/t'' \<and>
        Untar (demo_host lying_batch_fs) ''tar'' ''/t'' = Inr lying_batch_fs \<and>
        safePath lying_batch_fs ''/t'' ''oci-layout'' = Inr ''/t/oci-layout'' \<and>
        os_Open lying_batch_fs ''/t/oci-layout'' = Inl (OSNotExist ''/t/oci-layout'') \<and>
        safePath lying_batch_fs ''/t'' (manifestFileName (nm lying_exporter)) =
          Inr ''/t/manifest.json'' \<and>
        os_Open lying_batch_fs ''/t/manifest.json'' = Inr ''[]'' \<and>
        decodeManifest (cd lying_exporter) ''[]'' = Inr ([] @ lying_item # []) \<and>
        loadManifests lying_exporter lying_batch_fs ''/t'' True [] [] ?v = (None, [], ?v)"
      by (simp add: demo_host_def safePath_def lying_batch_fs_def lying_exporter_def demo_defs)
    from C5_diffID_mismatch_is_fatal [OF lying_cfg run _ k ne, where pre = "[]" and ms = "[]" and v = world0
        and h = "demo_host lying_batch_fs" and inTar = "''tar''" and n = 1 and name = "[]"
        and refs = "[]", THEN conjunct2, THEN conjunct2, THEN conjunct2, THEN conjunct2,
        THEN conjunct2, THEN conjunct1, rule_format, OF _ hyp]
    show ?thesis by (simp add: emit_def)
  qed
  have e: "map_option fst (Load 1 lying_exporter (demo_host lying_oci_fs) ''tar'' ''myimage'' []
       world0) = Some (Some (InvalidDiffID 1 ''b'' ''q''))"
  proof -
    let ?v1 = "emit (EvOpen ''/t/index.json'') (emit (EvOpen ''/t/oci-layout'') world0)"
    let ?v2 = "emit (EvOpen ''/t/blobs/sha256/m'') ?v1"
    let ?hq = "[?a, ?aq]"
    have ev: "ext ?v2 = dstore0" by (simp add: emit_def world0_def)
    note run = lying_oci_run [OF ev]
    have kq: "1 < length ?hq" by simp
    have neq: "L_DiffID (?hq ! 1) \<noteq> DiffIDs (img_RootFS (demo_image ''ab'')) ! 1"
      by (simp add: demo_image_def)
    have hyp: "True \<and> TempDir (demo_host lying_oci_fs) = Inr ''/t'' \<and>
        Untar (demo_host lying_oci_fs) ''tar'' ''/t'' = Inr lying_oci_fs \<and>
        safePath lying_oci_fs ''/t'' ''oci-layout'' = Inr ''/t/oci-layout'' \<and>
        os_Open lying_oci_fs ''/t/oci-layout'' = Inr ''{}'' \<and>
        (''myimage'' = []) = (([] :: (string \<times> string) list) \<noteq> []) \<and>
        os_Open lying_oci_fs (Join lying_oci_fs [''/t'', ''index.json'']) = Inr ''{}'' \<and>
        decodeIndex (cd lying_exporter) ''{}'' = Inr oci_index \<and>
        ociManifests lying_exporter lying_oci_fs ''/t'' ''myimage'' [] (Manifests oci_index) []
          (emit (EvOpen (Join lying_oci_fs [''/t'', ''index.json'']))
             (emit (EvOpen ''/t/oci-layout'') world0)) =
          (Inr ([] @ oci_item # []), ?v2) \<and>
        loadManifests lying_exporter lying_oci_fs ''/t'' True [] [] ?v2 = (None, [], ?v2)"
      by (simp add: demo_host_def safePath_def lying_oci_fs_def lying_exporter_def oci_index_def
          oci_manifest_def oci_item_def MediaTypeImageManifest_def blobPath_def ociTag_def
          demo_defs call_defs ref_String_def)
    from C5_diffID_mismatch_is_fatal [OF lying_oci_cfg lying_cfg(3) run _ kq neq, where pre = "[]" and ms = "[]"
        and v = world0 and h = "demo_host lying_oci_fs" and inTar = "''tar''" and n = 1
        and name = "''myimage''" and refs = "[]", THEN conjunct2, THEN conjunct2,
        THEN conjunct2, THEN conjunct2, THEN conjunct2, THEN conjunct2, rule_format, OF _ hyp]
    show ?thesis by (simp add: emit_def)
  qed
  from a bc d e show ?thesis by simp
qed

subsection \<open>Termination of the legacy parent recursion\<close>

lemma legacyConfig_declaredParent:
  assumes "legacyConfig l fs sourceDir oldID w = (Inr (imageJSON, parent), w1)" and "parent \<noteq> []"
  shows "declaredParent l fs sourceDir oldID = Some parent"
  using assms
  by (auto simp: legacyConfig_def declaredParent_def open_file_def split: sum.splits)

lemma legacyLoadImage_loaded:
  "loadedMap oldID \<noteq> None \<Longrightarrow>
   legacyLoadImage (Suc n) l fs oldID sourceDir loadedMap po w = Some (None, loadedMap, w)"
  by simp

text \<open>Once the parent is known, the rest of \<open>legacyLoadImage\<close> is straight-line code.\<close>

lemma legacyLoadImage_finish:
  assumes "loadedMap oldID = None"
      and "legacyConfig l fs sourceDir oldID w = (Inr (imageJSON, parent), w1)"
      and "(if parent \<noteq> [] then legacyParentLoop n l fs parent sourceDir loadedMap po w1
            else Some (Inr [], loadedMap, w1)) = Some (Inr parentID, loadedMap1, w2)"
  shows "\<exists>r loadedMap' w'.
           legacyLoadImage (Suc n) l fs oldID sourceDir loadedMap po w = Some (r, loadedMap', w') \<and>
           (r \<noteq> None \<or> loadedMap' oldID \<noteq> None)"
proof (cases "legacyAssemble l fs oldID sourceDir imageJSON parentID po w2")
  case (Pair res w3)
  with assms show ?thesis by (cases res) auto
qed

text \<open>The archive \<open>family_fs\<close>: only \<open>A\<close> and \<open>B\<close> declare a parent, which is \<open>P\<close>.\<close>

lemma append_eq_split:
  "(xs @ ys = zs) = (length ys \<le> length zs \<and> xs = take (length zs - length ys) zs \<and>
                     ys = drop (length zs - length ys) zs)"
  by (metis add_diff_cancel_right' append_eq_conv_conj append_take_drop_id le_add2 length_append)

lemma family_parent:
  assumes "declaredParent plain_exporter family_fs ''/t'' c = Some p"
  shows "p = ''P'' \<and> (c = ''A'' \<or> c = ''B'')"
proof -
  have path: "safePath family_fs ''/t'' (Join family_fs [c, legacyConfigFileName (nm plain_exporter)])
                = Inr (''/t/'' @ c @ ''/json'')"
    by (simp add: safePath_def family_fs_def plain_exporter_def demo_defs)
  have eqs: "\<And>s. (''/t/'' @ c @ ''/json'' = ''/t/'' @ s) = (c @ ''/json'' = s)" by simp
  from assms path show ?thesis
    apply (simp add: declaredParent_def)
    apply (simp add: family_fs_def plain_exporter_def demo_defs append_eq_split eq_commute [of "_ # _" "_ @ _"]
        split: if_splits sum.splits option.splits)
    done
qed

lemma family_wf: "wf (parentRel plain_exporter family_fs ''/t'')"
proof (rule wf_subset)
  show "wf (measure (\<lambda>c. if c = ''P'' then 0 else (1::nat)))" by simp
  show "parentRel plain_exporter family_fs ''/t'' \<subseteq> measure (\<lambda>c. if c = ''P'' then 0 else (1::nat))"
    by (auto simp: parentRel_def dest!: family_parent)
qed

text \<open>
  Claim C8. When the declared parent chains are acyclic and finite, that is, when the
  relation between a declared parent and its child is well-founded, \<open>legacyLoadImage\<close>
  returns for every old id, from every load map and every state of the stores: some
  amount of fuel suffices. The run ends with an error, or with the old id recorded in
  the load map.
\<close>

theorem C8_legacyLoadImage_terminates:
  assumes "wf (parentRel l fs sourceDir)"
  shows "\<exists>n r loadedMap' w'.
           legacyLoadImage n l fs oldID sourceDir loadedMap po w = Some (r, loadedMap', w') \<and>
           (r \<noteq> None \<or> loadedMap' oldID \<noteq> None)"
  using assms
proof (induction oldID arbitrary: loadedMap w rule: wf_induct_rule)
  case (less oldID)
  show ?case
  proof (cases "loadedMap oldID")
    case (Some i)
    then have "legacyLoadImage (Suc 0) l fs oldID sourceDir loadedMap po w = Some (None, loadedMap, w)"
      by simp
    with Some show ?thesis by blast
  next
    case None
    obtain res w1 where cfg: "legacyConfig l fs sourceDir oldID w = (res, w1)"
      by (cases "legacyConfig l fs sourceDir oldID w") auto
    show ?thesis
    proof (cases res)
      case (Inl e)
      with None cfg
      have "legacyLoadImage (Suc 0) l fs oldID sourceDir loadedMap po w = Some (Some e, loadedMap, w1)"
        by simp
      then show ?thesis by blast
    next
      case (Inr jp)
      obtain imageJSON parent where jp: "jp = (imageJSON, parent)" by (cases jp) auto
      note cfg' = cfg [unfolded Inr jp]
      show ?thesis
      proof (cases "parent = []")
        case True
        then have "(if parent \<noteq> [] then legacyParentLoop 0 l fs parent sourceDir loadedMap po w1
                    else Some (Inr [], loadedMap, w1)) = Some (Inr [], loadedMap, w1)"
          by simp
        from legacyLoadImage_finish [OF None cfg' this] show ?thesis by blast
      next
        case False
        with cfg' have dp: "declaredParent l fs sourceDir oldID = Some parent"
          by (rule legacyConfig_declaredParent)
        then have rel: "(parent, oldID) \<in> parentRel l fs sourceDir"
          by (simp add: parentRel_def)
        show ?thesis
        proof (cases "loadedMap parent")
          case (Some parentID)
          with False
          have "(if parent \<noteq> [] then legacyParentLoop (Suc 0) l fs parent sourceDir loadedMap po w1
                 else Some (Inr [], loadedMap, w1)) = Some (Inr parentID, loadedMap, w1)"
            by simp
          from legacyLoadImage_finish [OF None cfg' this] show ?thesis by blast
        next
          case pNone: None
          from less.IH [OF rel, of loadedMap w1] obtain n r1 loadedMap1 w2 where
            run: "legacyLoadImage n l fs parent sourceDir loadedMap po w1 = Some (r1, loadedMap1, w2)"
            and post: "r1 \<noteq> None \<or> loadedMap1 parent \<noteq> None"
            by blast
          show ?thesis
          proof (cases r1)
            case (Some e)
            with run pNone False None cfg'
            have "legacyLoadImage (Suc (Suc n)) l fs oldID sourceDir loadedMap po w =
                    Some (Some e, loadedMap1, w2)"
              by simp
            then show ?thesis by blast
          next
            case rNone: None
            with post obtain parentID where pid: "loadedMap1 parent = Some parentID" by auto
            from run obtain k where k: "n = Suc k" by (cases n) auto
            from pid k have "legacyParentLoop n l fs parent sourceDir loadedMap1 po w2 =
                               Some (Inr parentID, loadedMap1, w2)"
              by simp
            with run rNone pNone False
            have "(if parent \<noteq> [] then legacyParentLoop (Suc n) l fs parent sourceDir loadedMap po w1
                   else Some (Inr [], loadedMap, w1)) = Some (Inr parentID, loadedMap1, w2)"
              by simp
            from legacyLoadImage_finish [OF None cfg' this] show ?thesis by blast
          qed
        qed
      qed
    qed
  qed
qed

theorem C8_legacyLoadImage_terminates_witness:
  "wf (parentRel plain_exporter family_fs ''/t'') \<and>
   (\<exists>n r loadedMap' w'.
      legacyLoadImage n plain_exporter family_fs ''A'' ''/t'' Map.empty True world0 =
        Some (r, loadedMap', w') \<and>
      (r \<noteq> None \<or> loadedMap' ''A'' \<noteq> None))"
  using family_wf
    C8_legacyLoadImage_terminates [OF family_wf, of "''A''" Map.empty True world0]
  by simp

subsection \<open>Legacy images with a shared parent\<close>

lemma blocks_append:
  "blocks r c (xs @ ys) =
     blocks r c xs @ blocks (fst (pending r c xs)) (snd (pending r c xs)) ys"
  by (induction r c xs rule: blocks.induct) simp_all

lemma pending_append:
  "pending r c (xs @ ys) = pending (fst (pending r c xs)) (snd (pending r c xs)) ys"
  by (induction r c xs rule: pending.induct) simp_all

lemma acc_no_cycle:
  assumes "q \<in> Wellfounded.acc R"
  shows "(q, q) \<notin> R\<^sup>+"
  using assms
proof (induct rule: acc_induct_rule)
  fix x
  assume IH: "\<And>y. (y, x) \<in> R \<Longrightarrow> (y, y) \<notin> R\<^sup>+"
  show "(x, x) \<notin> R\<^sup>+"
  proof
    assume "(x, x) \<in> R\<^sup>+"
    then obtain y where y: "(x, y) \<in> R\<^sup>*" "(y, x) \<in> R"
      by (meson tranclD2)
    then have "(y, y) \<in> R\<^sup>+" by (meson rtrancl_into_trancl2)
    with IH y(2) show False by blast
  qed
qed

lemma ok_neutral:
  assumes "dom M \<subseteq> Wellfounded.acc (parentRel l fs sd)" "blocks 0 0 es = []" "pending 0 0 es = (0, 0)"
  shows "legacy_ok l fs sd M M es"
  using assms by (auto simp: legacy_ok_def)

lemma ok_trans:
  assumes a: "legacy_ok l fs sd M M1 es1" and b: "legacy_ok l fs sd M1 M2 es2"
  shows "legacy_ok l fs sd M M2 (es1 @ es2)"
proof -
  have bl: "blocks 0 0 (es1 @ es2) = blocks 0 0 es1 @ blocks 0 0 es2"
    using a by (simp add: blocks_append legacy_ok_def)
  have pe: "pending 0 0 (es1 @ es2) = (0, 0)"
    using a b by (simp add: pending_append legacy_ok_def)
  have le1: "M \<subseteq>\<^sub>m M1" and le2: "M1 \<subseteq>\<^sub>m M2"
    using a b by (simp_all add: legacy_ok_def)
  have le: "M \<subseteq>\<^sub>m M2" using le1 le2 by (rule map_le_trans)
  have k1: "\<And>q. q \<in> fst ` set (blocks 0 0 es1) \<Longrightarrow> M1 q \<noteq> None"
    using a by (fastforce simp: legacy_ok_def)
  have k2: "\<And>q. q \<in> fst ` set (blocks 0 0 es2) \<Longrightarrow> M1 q = None"
    using b by (fastforce simp: legacy_ok_def)
  have disj: "fst ` set (blocks 0 0 es1) \<inter> fst ` set (blocks 0 0 es2) = {}"
    using k1 k2 by blast
  have d1: "distinct (map fst (blocks 0 0 es1))" and d2: "distinct (map fst (blocks 0 0 es2))"
    using a b by (simp_all add: legacy_ok_def)
  have dist: "distinct (map fst (blocks 0 0 (es1 @ es2)))"
    using d1 d2 disj by (simp add: bl)
  have up: "\<And>q v. M1 q = Some v \<Longrightarrow> M2 q = Some v"
    using le2 by (metis domI map_le_def)
  have down: "\<And>q. M1 q = None \<Longrightarrow> M q = None"
    using le1 by (metis domIff map_le_def)
  have each: "\<forall>q i r c. (q, i, r, c) \<in> set (blocks 0 0 (es1 @ es2)) \<longrightarrow>
        r = 1 \<and> c = 1 \<and> M q = None \<and> M2 q = Some i \<and>
        (\<forall>p. declaredParent l fs sd q = Some p \<longrightarrow>
           (\<exists>pid. M2 p = Some pid \<and> (pid \<noteq> [] \<longrightarrow> EvIsSetParent i pid \<in> set (es1 @ es2))))"
  proof (intro allI impI)
    fix q i r c assume "(q, i, r, c) \<in> set (blocks 0 0 (es1 @ es2))"
    then consider (one) "(q, i, r, c) \<in> set (blocks 0 0 es1)" | (two) "(q, i, r, c) \<in> set (blocks 0 0 es2)"
      by (auto simp: bl)
    then show "r = 1 \<and> c = 1 \<and> M q = None \<and> M2 q = Some i \<and>
        (\<forall>p. declaredParent l fs sd q = Some p \<longrightarrow>
           (\<exists>pid. M2 p = Some pid \<and> (pid \<noteq> [] \<longrightarrow> EvIsSetParent i pid \<in> set (es1 @ es2))))"
    proof cases
      case one
      with a have f: "r = 1" "c = 1" "M q = None" "M1 q = Some i"
        "\<forall>p. declaredParent l fs sd q = Some p \<longrightarrow>
           (\<exists>pid. M1 p = Some pid \<and> (pid \<noteq> [] \<longrightarrow> EvIsSetParent i pid \<in> set es1))"
        unfolding legacy_ok_def by blast+
      from f(5) up have "\<forall>p. declaredParent l fs sd q = Some p \<longrightarrow>
           (\<exists>pid. M2 p = Some pid \<and> (pid \<noteq> [] \<longrightarrow> EvIsSetParent i pid \<in> set (es1 @ es2)))"
        by fastforce
      with f up show ?thesis by simp
    next
      case two
      with b have f: "r = 1" "c = 1" "M1 q = None" "M2 q = Some i"
        "\<forall>p. declaredParent l fs sd q = Some p \<longrightarrow>
           (\<exists>pid. M2 p = Some pid \<and> (pid \<noteq> [] \<longrightarrow> EvIsSetParent i pid \<in> set es2))"
        unfolding legacy_ok_def by blast+
      from f(5) have "\<forall>p. declaredParent l fs sd q = Some p \<longrightarrow>
           (\<exists>pid. M2 p = Some pid \<and> (pid \<noteq> [] \<longrightarrow> EvIsSetParent i pid \<in> set (es1 @ es2)))"
        by fastforce
      with f down show ?thesis by simp
    qed
  qed
  have new: "\<forall>q. M q = None \<and> M2 q \<noteq> None \<longrightarrow> q \<in> fst ` set (blocks 0 0 (es1 @ es2))"
  proof (intro allI impI)
    fix q assume q: "M q = None \<and> M2 q \<noteq> None"
    show "q \<in> fst ` set (blocks 0 0 (es1 @ es2))"
    proof (cases "M1 q")
      case None
      with q b have "q \<in> fst ` set (blocks 0 0 es2)" unfolding legacy_ok_def by blast
      then show ?thesis by (auto simp: bl)
    next
      case (Some v)
      with q a have "q \<in> fst ` set (blocks 0 0 es1)" unfolding legacy_ok_def by blast
      then show ?thesis by (auto simp: bl)
    qed
  qed
  have acc: "dom M2 \<subseteq> Wellfounded.acc (parentRel l fs sd)"
    using b by (simp add: legacy_ok_def)
  show ?thesis
    unfolding legacy_ok_def using le acc pe dist each new by blast
qed


lemma legacyConfig_no_parent:
  assumes "legacyConfig l fs sourceDir oldID w = (Inr (imageJSON, []), w1)"
  shows "declaredParent l fs sourceDir oldID = None"
  using assms
  by (auto simp: legacyConfig_def declaredParent_def open_file_def split: sum.splits)

lemma legacyConfig_trace:
  assumes "legacyConfig l fs sourceDir oldID w = (Inr x, w1)"
  shows "\<exists>configPath. trace w1 = trace w @ [EvOpen configPath]"
  using assms
  by (auto simp: legacyConfig_def open_file_def emit_def split: sum.splits)

lemma legacyAssemble_events:
  assumes "legacyAssemble l fs oldID sourceDir imageJSON parentID po w2 = (Inr imgID, w3)"
  shows "trace w3 = trace w2 @ drop (length (trace w2)) (trace w3)"
    and "blocks r c (drop (length (trace w2)) (trace w3) @ rest) = blocks (Suc r) (Suc c) rest"
    and "pending r c (drop (length (trace w2)) (trace w3) @ rest) = pending (Suc r) (Suc c) rest"
    and "parentID \<noteq> [] \<Longrightarrow> EvIsSetParent imgID parentID \<in> set (drop (length (trace w2)) (trace w3))"
  using assms
  by (auto simp: legacyAssemble_def legacyBase_def legacyCreate_def loadLayer_def call_defs
      split: prod.splits sum.splits if_splits option.splits)

lemma legacyAssemble_trace:
  assumes "legacyAssemble l fs oldID sourceDir imageJSON parentID po w2 = (Inr imgID, w3)"
  shows "\<exists>ea. trace w3 = trace w2 @ ea \<and>
           (\<forall>r c rest. blocks r c (ea @ rest) = blocks (Suc r) (Suc c) rest) \<and>
           (\<forall>r c rest. pending r c (ea @ rest) = pending (Suc r) (Suc c) rest) \<and>
           (parentID \<noteq> [] \<longrightarrow> EvIsSetParent imgID parentID \<in> set ea)"
  using legacyAssemble_events [OF assms] by blast


lemma legacyLoadImage_SucE:
  assumes "legacyLoadImage (Suc n) l fs q sd M po w = Some (None, M', w')" and "M q = None"
  shows "\<exists>imageJSON parent w1 parentID M1 w2 imgID w3.
    legacyConfig l fs sd q w = (Inr (imageJSON, parent), w1) \<and>
    (parent \<noteq> [] \<longrightarrow>
       legacyParentLoop n l fs parent sd M po w1 = Some (Inr parentID, M1, w2)) \<and>
    (parent = [] \<longrightarrow> parentID = [] \<and> M1 = M \<and> w2 = w1) \<and>
    legacyAssemble l fs q sd imageJSON parentID po w2 = (Inr imgID, w3) \<and>
    M' = M1(q \<mapsto> imgID) \<and> w' = emit (EvMapStore q imgID) w3"
  using assms
  by (auto split: prod.splits sum.splits option.splits if_splits)

lemma legacyParentLoop_SucE:
  assumes "legacyParentLoop (Suc n) l fs p sd M po w = Some (Inr pid, M', w')" and "M p = None"
  shows "\<exists>M1 w1. legacyLoadImage n l fs p sd M po w = Some (None, M1, w1) \<and>
           legacyParentLoop n l fs p sd M1 po w1 = Some (Inr pid, M', w')"
  using assms
  by (auto split: prod.splits sum.splits option.splits if_splits)

lemma ok_single:
  assumes acc: "dom M1 \<subseteq> Wellfounded.acc (parentRel l fs sd)"
      and q: "M1 q = None" and qacc: "q \<in> Wellfounded.acc (parentRel l fs sd)"
      and bl: "\<forall>r c rest. blocks r c (ea @ rest) = blocks (Suc r) (Suc c) rest"
      and pe: "\<forall>r c rest. pending r c (ea @ rest) = pending (Suc r) (Suc c) rest"
      and par: "\<forall>p. declaredParent l fs sd q = Some p \<longrightarrow> M1 p = Some parentID"
      and sp: "parentID \<noteq> [] \<longrightarrow> EvIsSetParent imgID parentID \<in> set ea"
  shows "legacy_ok l fs sd M1 (M1(q \<mapsto> imgID)) (ea @ [EvMapStore q imgID])"
proof -
  have b1: "blocks 0 0 (ea @ [EvMapStore q imgID]) = [(q, imgID, 1, 1)]"
    using bl by simp
  have p1: "pending 0 0 (ea @ [EvMapStore q imgID]) = (0, 0)"
    using pe by simp
  have le: "M1 \<subseteq>\<^sub>m M1(q \<mapsto> imgID)"
    using q by (auto simp: map_le_def)
  have d: "dom (M1(q \<mapsto> imgID)) \<subseteq> Wellfounded.acc (parentRel l fs sd)"
    using acc qacc by auto
  have link: "\<forall>p. declaredParent l fs sd q = Some p \<longrightarrow>
           (\<exists>pid. (M1(q \<mapsto> imgID)) p = Some pid \<and>
              (pid \<noteq> [] \<longrightarrow> EvIsSetParent imgID pid \<in> set (ea @ [EvMapStore q imgID])))"
  proof (intro allI impI)
    fix p assume dp: "declaredParent l fs sd q = Some p"
    with par q have "p \<noteq> q" by auto
    with dp par sp show "\<exists>pid. (M1(q \<mapsto> imgID)) p = Some pid \<and>
              (pid \<noteq> [] \<longrightarrow> EvIsSetParent imgID pid \<in> set (ea @ [EvMapStore q imgID]))"
      by auto
  qed
  show ?thesis
    unfolding legacy_ok_def b1 p1 using le d link q by auto
qed

lemma legacy_runs:
  "(\<forall>q M w M' w'. dom M \<subseteq> Wellfounded.acc (parentRel l fs sd) \<longrightarrow>
       legacyLoadImage n l fs q sd M po w = Some (None, M', w') \<longrightarrow>
       (\<exists>es. trace w' = trace w @ es \<and> legacy_ok l fs sd M M' es) \<and> M' q \<noteq> None \<and>
       (\<forall>z. M z = None \<and> M' z \<noteq> None \<longrightarrow> (z, q) \<in> (parentRel l fs sd)\<^sup>*)) \<and>
   (\<forall>p M w pid M' w'. dom M \<subseteq> Wellfounded.acc (parentRel l fs sd) \<longrightarrow>
       legacyParentLoop n l fs p sd M po w = Some (Inr pid, M', w') \<longrightarrow>
       (\<exists>es. trace w' = trace w @ es \<and> legacy_ok l fs sd M M' es) \<and> M' p = Some pid \<and>
       (\<forall>z. M z = None \<and> M' z \<noteq> None \<longrightarrow> (z, p) \<in> (parentRel l fs sd)\<^sup>*))"
  (is "?I n \<and> ?L n")
proof (induction n)
  case 0
  show ?case by simp
next
  case (Suc n)
  let ?R = "parentRel l fs sd"
  note IHI = Suc [THEN conjunct1, rule_format] and IHL = Suc [THEN conjunct2, rule_format]
  have img: "?I (Suc n)"
  proof (intro allI impI)
    fix q M w M' w'
    assume acc: "dom M \<subseteq> Wellfounded.acc ?R"
       and run: "legacyLoadImage (Suc n) l fs q sd M po w = Some (None, M', w')"
    show "(\<exists>es. trace w' = trace w @ es \<and> legacy_ok l fs sd M M' es) \<and> M' q \<noteq> None \<and>
          (\<forall>z. M z = None \<and> M' z \<noteq> None \<longrightarrow> (z, q) \<in> ?R\<^sup>*)"
    proof (cases "M q")
      case (Some v)
      with run have "M' = M" "w' = w" by simp_all
      moreover have "legacy_ok l fs sd M M []" using acc by (simp add: ok_neutral)
      ultimately show ?thesis using Some by auto
    next
      case None
      from legacyLoadImage_SucE [OF run None]
      obtain imageJSON parent w1 parentID M1 w2 imgID w3 where
        cfg: "legacyConfig l fs sd q w = (Inr (imageJSON, parent), w1)"
        and loop': "parent \<noteq> [] \<longrightarrow>
                     legacyParentLoop n l fs parent sd M po w1 = Some (Inr parentID, M1, w2)"
        and noloop': "parent = [] \<longrightarrow> parentID = [] \<and> M1 = M \<and> w2 = w1"
        and asm: "legacyAssemble l fs q sd imageJSON parentID po w2 = (Inr imgID, w3)"
        and M': "M' = M1(q \<mapsto> imgID)" and w': "w' = emit (EvMapStore q imgID) w3"
        by blast
      note loop = loop' [rule_format] and noloop = noloop' [rule_format]
      from legacyConfig_trace [OF cfg] obtain configPath where
        t1: "trace w1 = trace w @ [EvOpen configPath]" by blast
      have step: "(\<exists>es2. trace w2 = trace w1 @ es2 \<and> legacy_ok l fs sd M M1 es2) \<and>
                  (\<forall>p. declaredParent l fs sd q = Some p \<longrightarrow> M1 p = Some parentID) \<and>
                  (\<forall>z. M z = None \<and> M1 z \<noteq> None \<longrightarrow> (z, q) \<in> ?R\<^sup>+)"
      proof (cases "parent = []")
        case True
        with noloop have e: "parentID = []" "M1 = M" "w2 = w1" by simp_all
        from cfg True have "declaredParent l fs sd q = None"
          by (simp add: legacyConfig_no_parent)
        moreover have "legacy_ok l fs sd M M []" using acc by (simp add: ok_neutral)
        ultimately show ?thesis using e by auto
      next
        case False
        from cfg False have dp: "declaredParent l fs sd q = Some parent"
          by (rule legacyConfig_declaredParent)
        then have rel: "(parent, q) \<in> ?R" by (simp add: parentRel_def)
        note ih = IHL [OF acc loop [OF False]]
        from ih have a: "\<exists>es. trace w2 = trace w1 @ es \<and> legacy_ok l fs sd M M1 es"
          by (rule conjunct1)
        from ih have b: "M1 parent = Some parentID"
          by simp
        from ih have c: "\<forall>z. M z = None \<and> M1 z \<noteq> None \<longrightarrow> (z, parent) \<in> ?R\<^sup>*"
          by simp
        from c rel have "\<forall>z. M z = None \<and> M1 z \<noteq> None \<longrightarrow> (z, q) \<in> ?R\<^sup>+"
          by (meson rtrancl_into_trancl1)
        with a b dp show ?thesis by auto
      qed
      then obtain es2 where
        t2: "trace w2 = trace w1 @ es2" and ok2: "legacy_ok l fs sd M M1 es2"
        and par: "\<forall>p. declaredParent l fs sd q = Some p \<longrightarrow> M1 p = Some parentID"
        and anc: "\<forall>z. M z = None \<and> M1 z \<noteq> None \<longrightarrow> (z, q) \<in> ?R\<^sup>+"
        by blast
      from ok2 have acc1: "dom M1 \<subseteq> Wellfounded.acc ?R" by (simp add: legacy_ok_def)
      have qacc: "q \<in> Wellfounded.acc ?R"
      proof (rule accI)
        fix y assume "(y, q) \<in> ?R"
        then have "declaredParent l fs sd q = Some y" by (simp add: parentRel_def)
        with par have "M1 y = Some parentID" by simp
        with acc1 show "y \<in> Wellfounded.acc ?R" by blast
      qed
      have q1: "M1 q = None"
      proof (rule ccontr)
        assume "M1 q \<noteq> None"
        with None anc have "(q, q) \<in> ?R\<^sup>+" by simp
        with acc_no_cycle [OF qacc] show False by simp
      qed
      from legacyAssemble_trace [OF asm] obtain ea where
        t3: "trace w3 = trace w2 @ ea"
        and bl: "\<forall>r c rest. blocks r c (ea @ rest) = blocks (Suc r) (Suc c) rest"
        and pe: "\<forall>r c rest. pending r c (ea @ rest) = pending (Suc r) (Suc c) rest"
        and sp: "parentID \<noteq> [] \<longrightarrow> EvIsSetParent imgID parentID \<in> set ea"
        by blast
      have ok3: "legacy_ok l fs sd M1 M' (ea @ [EvMapStore q imgID])"
        unfolding M' using acc1 q1 qacc bl pe par sp by (rule ok_single)
      have ok1: "legacy_ok l fs sd M M [EvOpen configPath]"
        using acc by (simp add: ok_neutral)
      have ok: "legacy_ok l fs sd M M' ([EvOpen configPath] @ es2 @ ea @ [EvMapStore q imgID])"
        using ok1 ok2 ok3 by (blast intro: ok_trans)
      have tr: "trace w' = trace w @ ([EvOpen configPath] @ es2 @ ea @ [EvMapStore q imgID])"
        using t1 t2 t3 w' by (simp add: emit_def)
      have new: "\<forall>z. M z = None \<and> M' z \<noteq> None \<longrightarrow> (z, q) \<in> ?R\<^sup>*"
      proof (intro allI impI)
        fix z assume z: "M z = None \<and> M' z \<noteq> None"
        show "(z, q) \<in> ?R\<^sup>*"
        proof (cases "z = q")
          case True
          then show ?thesis by simp
        next
          case False
          with z M' have "M1 z \<noteq> None" by simp
          with z anc have "(z, q) \<in> ?R\<^sup>+" by simp
          then show ?thesis by (rule trancl_into_rtrancl)
        qed
      qed
      have "M' q \<noteq> None" using M' by simp
      with ok tr new show ?thesis by blast
    qed
  qed
  have lp: "?L (Suc n)"
  proof (intro allI impI)
    fix p M w pid M' w'
    assume acc: "dom M \<subseteq> Wellfounded.acc ?R"
       and run: "legacyParentLoop (Suc n) l fs p sd M po w = Some (Inr pid, M', w')"
    show "(\<exists>es. trace w' = trace w @ es \<and> legacy_ok l fs sd M M' es) \<and> M' p = Some pid \<and>
          (\<forall>z. M z = None \<and> M' z \<noteq> None \<longrightarrow> (z, p) \<in> ?R\<^sup>*)"
    proof (cases "M p")
      case (Some v)
      with run have "M' = M" "w' = w" "pid = v" by simp_all
      moreover have "legacy_ok l fs sd M M []" using acc by (simp add: ok_neutral)
      ultimately show ?thesis using Some by auto
    next
      case None
      from legacyParentLoop_SucE [OF run None] obtain M1 w1 where
        r1: "legacyLoadImage n l fs p sd M po w = Some (None, M1, w1)"
        and r2: "legacyParentLoop n l fs p sd M1 po w1 = Some (Inr pid, M', w')"
        by blast
      from IHI [OF acc r1] obtain es1 where
        t1: "trace w1 = trace w @ es1" and ok1: "legacy_ok l fs sd M M1 es1"
        and anc1: "\<forall>z. M z = None \<and> M1 z \<noteq> None \<longrightarrow> (z, p) \<in> ?R\<^sup>*"
        by blast
      from ok1 have acc1: "dom M1 \<subseteq> Wellfounded.acc ?R" by (simp add: legacy_ok_def)
      from IHL [OF acc1 r2] obtain es2 where
        t2: "trace w' = trace w1 @ es2" and ok2: "legacy_ok l fs sd M1 M' es2"
        and pid: "M' p = Some pid"
        and anc2: "\<forall>z. M1 z = None \<and> M' z \<noteq> None \<longrightarrow> (z, p) \<in> ?R\<^sup>*"
        by blast
      have "legacy_ok l fs sd M M' (es1 @ es2)" using ok1 ok2 by (rule ok_trans)
      moreover have "trace w' = trace w @ (es1 @ es2)" using t1 t2 by simp
      moreover have "\<forall>z. M z = None \<and> M' z \<noteq> None \<longrightarrow> (z, p) \<in> ?R\<^sup>*"
        using anc1 anc2 by blast
      ultimately show ?thesis using pid by blast
    qed
  qed
  from img lp show ?case by blast
qed


lemma legacyLoadDirs_ok:
  assumes "dom M \<subseteq> Wellfounded.acc (parentRel l fs sd)"
      and "legacyLoadDirs n l fs sd dirs M po w = Some (None, M', w')"
  shows "\<exists>es. trace w' = trace w @ es \<and> legacy_ok l fs sd M M' es \<and>
           (\<forall>d. (d, True) \<in> set dirs \<longrightarrow> M' d \<noteq> None)"
  using assms
proof (induction dirs arbitrary: M w)
  case Nil
  then show ?case by (simp add: ok_neutral)
next
  case (Cons entry dirs)
  obtain d isDir where entry: "entry = (d, isDir)" by (cases entry) auto
  show ?case
  proof (cases isDir)
    case False
    with Cons.prems entry have "legacyLoadDirs n l fs sd dirs M po w = Some (None, M', w')"
      by simp
    from Cons.IH [OF Cons.prems(1) this] entry False show ?thesis by auto
  next
    case True
    with Cons.prems(2) entry obtain M1 w1 where
      r1: "legacyLoadImage n l fs d sd M po w = Some (None, M1, w1)"
      and r2: "legacyLoadDirs n l fs sd dirs M1 po w1 = Some (None, M', w')"
      by (auto split: option.splits prod.splits)
    from legacy_runs [THEN conjunct1, rule_format, OF Cons.prems(1) r1] obtain es1 where
      t1: "trace w1 = trace w @ es1" and ok1: "legacy_ok l fs sd M M1 es1" and d1: "M1 d \<noteq> None"
      by blast
    from ok1 have acc1: "dom M1 \<subseteq> Wellfounded.acc (parentRel l fs sd)"
      by (simp add: legacy_ok_def)
    from Cons.IH [OF acc1 r2] obtain es2 where
      t2: "trace w' = trace w1 @ es2" and ok2: "legacy_ok l fs sd M1 M' es2"
      and rest: "\<forall>d. (d, True) \<in> set dirs \<longrightarrow> M' d \<noteq> None"
      by blast
    from ok2 have "M1 \<subseteq>\<^sub>m M'" by (simp add: legacy_ok_def)
    with d1 have "M' d \<noteq> None" by (metis domIff map_le_def)
    moreover have "legacy_ok l fs sd M M' (es1 @ es2)" using ok1 ok2 by (rule ok_trans)
    moreover have "trace w' = trace w @ (es1 @ es2)" using t1 t2 by simp
    ultimately show ?thesis using rest entry by auto
  qed
qed

text \<open>
  Claim C7. Let a legacy batch (the directories of one archive, loaded from the empty
  load map) end well, and let two of its directories \<open>X\<close> and \<open>Y\<close> both declare
  the parent \<open>P\<close>. Then \<open>P\<close>, \<open>X\<close> and \<open>Y\<close> are in the load map; no old id is
  written to the load map twice, and the one write of \<open>P\<close> comes after exactly one
  \<open>ls.Register\<close> and one \<open>is.Create\<close>, so \<open>P\<close> is registered and assembled once;
  \<open>is.SetParent\<close> was called for the image of \<open>X\<close> and for the image of \<open>Y\<close>
  with the image id of \<open>P\<close> (the code links a parent whose image id is not the empty
  string, which no digest is); and \<open>legacyLoadImage\<close> on \<open>P\<close> once more returns
  at once and changes nothing. No registration or creation is made besides: every write
  to the load map comes after exactly one \<open>ls.Register\<close> and one \<open>is.Create\<close>
  since the write before, none follows the last write, and the old ids written are those
  of the load map, so the batch registers and creates once for every image it has loaded,
  \<open>P\<close> included.
\<close>

theorem C7_shared_parent_loaded_once:
  assumes run: "legacyLoadDirs n l fs tmpDir dirs Map.empty po w = Some (None, loadedMap, w')"
      and X: "(X, True) \<in> set dirs" and Y: "(Y, True) \<in> set dirs"
      and pX: "declaredParent l fs tmpDir X = Some P"
      and pY: "declaredParent l fs tmpDir Y = Some P"
  shows "\<exists>es pid xid yid.
           trace w' = trace w @ es \<and>
           loadedMap P = Some pid \<and> loadedMap X = Some xid \<and> loadedMap Y = Some yid \<and>
           distinct (map fst (blocks 0 0 es)) \<and> (P, pid, 1, 1) \<in> set (blocks 0 0 es) \<and>
           (pid \<noteq> [] \<longrightarrow> EvIsSetParent xid pid \<in> set es \<and> EvIsSetParent yid pid \<in> set es) \<and>
           legacyLoadImage (Suc k) l fs P tmpDir loadedMap po w' = Some (None, loadedMap, w') \<and>
           (\<forall>q i r c. (q, i, r, c) \<in> set (blocks 0 0 es) \<longrightarrow>
              r = 1 \<and> c = 1 \<and> loadedMap q = Some i) \<and>
           pending 0 0 es = (0, 0) \<and>
           fst ` set (blocks 0 0 es) = dom loadedMap"
proof -
  have "dom (Map.empty :: string \<rightharpoonup> ID) \<subseteq> Wellfounded.acc (parentRel l fs tmpDir)" by simp
  from legacyLoadDirs_ok [OF this run] obtain es where
    tr: "trace w' = trace w @ es" and ok: "legacy_ok l fs tmpDir Map.empty loadedMap es"
    and all: "\<forall>d. (d, True) \<in> set dirs \<longrightarrow> loadedMap d \<noteq> None"
    by blast
  from ok have blks: "\<forall>q i r c. (q, i, r, c) \<in> set (blocks 0 0 es) \<longrightarrow>
      r = 1 \<and> c = 1 \<and> loadedMap q = Some i \<and>
      (\<forall>p. declaredParent l fs tmpDir q = Some p \<longrightarrow>
           (\<exists>pid. loadedMap p = Some pid \<and> (pid \<noteq> [] \<longrightarrow> EvIsSetParent i pid \<in> set es)))"
    unfolding legacy_ok_def by (elim conjE) fast
  from ok have cover: "\<forall>q. loadedMap q \<noteq> None \<longrightarrow> q \<in> fst ` set (blocks 0 0 es)"
    by (simp add: legacy_ok_def)
  from ok have pend: "pending 0 0 es = (0, 0)" by (simp add: legacy_ok_def)
  from ok have dist: "distinct (map fst (blocks 0 0 es))" by (simp add: legacy_ok_def)
  have once: "\<forall>q i r c. (q, i, r, c) \<in> set (blocks 0 0 es) \<longrightarrow>
      r = 1 \<and> c = 1 \<and> loadedMap q = Some i"
    using blks by blast
  have keys: "fst ` set (blocks 0 0 es) = dom loadedMap"
  proof
    show "fst ` set (blocks 0 0 es) \<subseteq> dom loadedMap"
    proof
      fix q assume "q \<in> fst ` set (blocks 0 0 es)"
      then obtain i r c where "(q, i, r, c) \<in> set (blocks 0 0 es)" by force
      with once have "loadedMap q = Some i" by blast
      then show "q \<in> dom loadedMap" by blast
    qed
    show "dom loadedMap \<subseteq> fst ` set (blocks 0 0 es)"
      using cover by blast
  qed
  have new: "\<And>q. loadedMap q \<noteq> None \<Longrightarrow> \<exists>i. (q, i, 1, 1) \<in> set (blocks 0 0 es) \<and> loadedMap q = Some i \<and>
      (\<forall>p. declaredParent l fs tmpDir q = Some p \<longrightarrow>
           (\<exists>pid. loadedMap p = Some pid \<and> (pid \<noteq> [] \<longrightarrow> EvIsSetParent i pid \<in> set es)))"
  proof -
    fix q assume "loadedMap q \<noteq> None"
    with cover have "q \<in> fst ` set (blocks 0 0 es)" by simp
    then obtain i r c where m: "(q, i, r, c) \<in> set (blocks 0 0 es)" by force
    from blks [rule_format, OF m] m
    show "\<exists>i. (q, i, 1, 1) \<in> set (blocks 0 0 es) \<and> loadedMap q = Some i \<and>
      (\<forall>p. declaredParent l fs tmpDir q = Some p \<longrightarrow>
           (\<exists>pid. loadedMap p = Some pid \<and> (pid \<noteq> [] \<longrightarrow> EvIsSetParent i pid \<in> set es)))"
      by blast
  qed
  from all X have "loadedMap X \<noteq> None" by blast
  from new [OF this] pX obtain xid pid where
    x: "loadedMap X = Some xid" and p: "loadedMap P = Some pid"
    and sx: "pid \<noteq> [] \<longrightarrow> EvIsSetParent xid pid \<in> set es"
    by blast
  from all Y have "loadedMap Y \<noteq> None" by blast
  from new [OF this] pY p obtain yid where
    y: "loadedMap Y = Some yid" and sy: "pid \<noteq> [] \<longrightarrow> EvIsSetParent yid pid \<in> set es"
    by fastforce
  from p have "loadedMap P \<noteq> None" by simp
  from new [OF this] p have blk: "(P, pid, 1, 1) \<in> set (blocks 0 0 es)" by auto
  from p have again: "legacyLoadImage (Suc k) l fs P tmpDir loadedMap po w' = Some (None, loadedMap, w')"
    by simp
  from sx sy have sxy: "pid \<noteq> [] \<longrightarrow> EvIsSetParent xid pid \<in> set es \<and> EvIsSetParent yid pid \<in> set es"
    by blast
  show ?thesis
    by (rule exI [of _ es], rule exI [of _ pid], rule exI [of _ xid], rule exI [of _ yid],
        intro conjI) (rule tr p x y dist blk sxy again once pend keys)+
qed

lemma family_run:
  "legacyLoadDirs 3 plain_exporter family_fs ''/t'' [(''A'', True), (''B'', True), (''P'', True)]
     Map.empty True world0 = Some (None, family_map, family_world)"
  by (simp add: numeral_3_eq_3 plain_exporter_def family_fs_def family_map_def family_world_def
      family_trace_def legacy_defs demo_defs run_defs)

lemma family_declared:
  "declaredParent plain_exporter family_fs ''/t'' ''A'' = Some ''P''"
  "declaredParent plain_exporter family_fs ''/t'' ''B'' = Some ''P''"
  by (simp_all add: declaredParent_def plain_exporter_def family_fs_def demo_defs safePath_def)

theorem C7_shared_parent_loaded_once_witness:
  "\<exists>es pid xid yid.
     trace family_world = trace world0 @ es \<and>
     family_map ''P'' = Some pid \<and> family_map ''A'' = Some xid \<and> family_map ''B'' = Some yid \<and>
     distinct (map fst (blocks 0 0 es)) \<and> (''P'', pid, 1, 1) \<in> set (blocks 0 0 es) \<and>
     (pid \<noteq> [] \<longrightarrow> EvIsSetParent xid pid \<in> set es \<and> EvIsSetParent yid pid \<in> set es) \<and>
     legacyLoadImage (Suc 0) plain_exporter family_fs ''P'' ''/t'' family_map True family_world =
       Some (None, family_map, family_world) \<and>
     (\<forall>q i r c. (q, i, r, c) \<in> set (blocks 0 0 es) \<longrightarrow>
        r = 1 \<and> c = 1 \<and> family_map q = Some i) \<and>
     pending 0 0 es = (0, 0) \<and>
     fst ` set (blocks 0 0 es) = dom family_map"
proof -
  have a: "(''A'', True) \<in> set [(''A'', True), (''B'', True), (''P'', True)]" by simp
  have b: "(''B'', True) \<in> set [(''A'', True), (''B'', True), (''P'', True)]" by simp
  show ?thesis
    by (rule C7_shared_parent_loaded_once [OF family_run a b family_declared])
qed

subsection \<open>Lookup before registration\<close>










text \<open>The legacy loader never looks a layer up.\<close>

lemma lookups_append [simp]: "lookups (xs @ ys) = lookups xs @ lookups ys"
  by (induction xs rule: lookups.induct) simp_all









end
